theory Spec2Isabelle
  imports Main "HOL-Library.Sublist"
begin

section \<open>JavaScript values used by the program\<close>

text \<open>
  A pagination cursor is a JavaScript string or \<open>undefined\<close> (both listings use
  \<open>PaginationKeyType\<close>, a string). The code tests it with \<open>!!nextToken\<close> and
  \<open>if (nextToken)\<close>: \<open>undefined\<close> and the empty string are falsy, every other
  string is truthy.
\<close>

type_synonym token = "string option"

definition truthy :: "string option \<Rightarrow> bool" where
  "truthy t = (case t of None \<Rightarrow> False | Some s \<Rightarrow> s \<noteq> [])"

text \<open>A rejected promise carries an error object; the code reads its \<open>name\<close> and \<open>message\<close>.\<close>

datatype error = Error (error_name: string) (error_message: string)

text \<open>\<open>s.startsWith(t)\<close>, \<open>s.endsWith(t)\<close> and \<open>s.indexOf(t) >= 0\<close> on strings.\<close>

definition startsWith :: "string \<Rightarrow> string \<Rightarrow> bool" where
  "startsWith s t = (take (length t) s = t)"

definition endsWith :: "string \<Rightarrow> string \<Rightarrow> bool" where
  "endsWith s t = (length t \<le> length s \<and> drop (length s - length t) s = t)"

fun includesStr :: "string \<Rightarrow> string \<Rightarrow> bool" where
  "includesStr [] t = (t = [])"
| "includesStr (c # cs) t = (startsWith (c # cs) t \<or> includesStr cs t)"

section \<open>Paged fetch: \<open>pagedAWSCall\<close>\<close>

text \<open>
  \<open>action\<close> performs one remote call: it takes the state of the world, the fixed
  parameters and the cursor, and returns the rejection or the response (which the code
  tests for truthiness, so it may be \<open>undefined\<close>) together with the new world.
  \<open>accessor\<close> may return \<open>undefined\<close> (the item field of a response is optional).
  \<open>getNextToken\<close> is given the response and the items accumulated so far; it is an
  \<open>async\<close> function that makes no remote call in either use, so it is a pure function
  here. The body of the \<open>do ... while (!!nextToken)\<close> loop is run once before the
  test; the loop may run forever, in which case the model returns \<open>None\<close>.
\<close>

partial_function (option) pagedAWSCall_loop ::
  "('w \<Rightarrow> 'p \<Rightarrow> token \<Rightarrow> (error + 'r option) \<times> 'w) \<Rightarrow> 'p \<Rightarrow> ('r \<Rightarrow> 'd list option) \<Rightarrow>
   ('r \<Rightarrow> 'd list \<Rightarrow> token) \<Rightarrow> 'd list \<Rightarrow> token \<Rightarrow> 'w \<Rightarrow> ((error + 'd list) \<times> 'w) option"
where
  "pagedAWSCall_loop action params accessor getNextToken result nextToken w =
     (case action w params nextToken of
        (Inl err, w') \<Rightarrow> Some (Inl err, w')
      | (Inr response, w') \<Rightarrow>
          (let result' = (case response of
                            None \<Rightarrow> result
                          | Some r \<Rightarrow> (case accessor r of None \<Rightarrow> result
                                                        | Some items \<Rightarrow> result @ items));
               nextToken' = (case response of None \<Rightarrow> None
                                           | Some r \<Rightarrow> getNextToken r result')
           in if truthy nextToken'
              then pagedAWSCall_loop action params accessor getNextToken result' nextToken' w'
              else Some (Inr result', w')))"

definition pagedAWSCall ::
  "('w \<Rightarrow> 'p \<Rightarrow> token \<Rightarrow> (error + 'r option) \<times> 'w) \<Rightarrow> 'p \<Rightarrow> ('r \<Rightarrow> 'd list option) \<Rightarrow>
   ('r \<Rightarrow> 'd list \<Rightarrow> token) \<Rightarrow> 'w \<Rightarrow> ((error + 'd list) \<times> 'w) option"
where
  "pagedAWSCall action params accessor getNextToken w =
     pagedAWSCall_loop action params accessor getNextToken [] None w"

section \<open>Data model\<close>

text \<open>
  A user attribute \<open>{Name, Value}\<close>; \<open>Value\<close> is optional in the service's types, and
  the scrubber itself writes an \<open>undefined\<close> value when the generated name has no
  second word.
\<close>

record attribute =
  Name :: string
  Value :: "string option"

text \<open>
  A user as returned by \<open>listUsers\<close>. The code reads \<open>Username\<close>, \<open>UserStatus\<close> and
  \<open>Attributes\<close>; every other field of the object lives in the record's extension.
\<close>

record user =
  Username :: string
  UserStatus :: "string option"
  Attributes :: "attribute list"

text \<open>
  The verdict fields that classification attaches to a pool object. A pool fresh from a
  listing has neither (\<open>None\<close> is JavaScript's \<open>undefined\<close>).
\<close>

record verdict =
  isPrepareToDelete :: "bool option"
  reasonDelete :: "string option"

text \<open>The fields \<open>Id\<close> and \<open>Name\<close> of a user pool are \<open>PoolId\<close> and \<open>PoolName\<close> here.\<close>

record user_pool = verdict +
  PoolId :: string
  PoolName :: string
  poolUsers :: "user list option"

record identity_pool = verdict +
  IdentityPoolId :: string

text \<open>\<open>pool?.isPrepareToDelete\<close> as a condition: only \<open>true\<close> is truthy.\<close>

definition marked :: "'a verdict_scheme \<Rightarrow> bool" where
  "marked p = (isPrepareToDelete p = Some True)"

subsection \<open>Responses of the service\<close>

record listUsers_response =
  Users :: "user list"
  PaginationToken :: token

text \<open>The field \<open>NextToken\<close> of the two pool listings is \<open>UserPools_NextToken\<close> and
  \<open>IdentityPools_NextToken\<close>.\<close>

record listUserPools_response =
  UserPools :: "user_pool list option"
  UserPools_NextToken :: token

record listIdentityPools_response =
  IdentityPools :: "identity_pool list option"
  IdentityPools_NextToken :: token

record provider =
  ProviderName :: "string option"

record describeIdentityPool_response =
  CognitoIdentityProviders :: "provider list option"

text \<open>The field \<open>Domain\<close> of a described user pool is \<open>UserPoolDomain\<close>.\<close>

record userPoolType =
  UserPoolDomain :: "string option"

record describeUserPool_response =
  UserPool :: "userPoolType option"

subsection \<open>The remote service\<close>

text \<open>
  The world is the history of the remote calls issued so far. A backend answers each call
  as a function of the history up to and including that call, so that the same request
  may be answered differently the second time; nothing else is assumed about it.
\<close>

datatype call =
    ListUserPoolsCall nat token
  | ListIdentityPoolsCall nat token
  | ListUsersCall string token
  | DescribeIdentityPoolCall string
  | DescribeUserPoolCall string
  | DeleteUserPoolDomainCall string string
  | DeleteUserPoolCall string
  | DeleteIdentityPoolCall string

record backend =
  listUserPools_reply :: "call list \<Rightarrow> error + listUserPools_response option"
  listIdentityPools_reply :: "call list \<Rightarrow> error + listIdentityPools_response option"
  listUsers_reply :: "call list \<Rightarrow> error + listUsers_response"
  describeIdentityPool_reply :: "call list \<Rightarrow> error + describeIdentityPool_response option"
  describeUserPool_reply :: "call list \<Rightarrow> error + describeUserPool_response"
  delete_reply :: "call list \<Rightarrow> error + unit"

definition remote :: "(call list \<Rightarrow> error + 'a) \<Rightarrow> call \<Rightarrow> call list \<Rightarrow> (error + 'a) \<times> call list" where
  "remote reply c h = (reply (h @ [c]), h @ [c])"

definition cognito_listUsers ::
  "backend \<Rightarrow> string \<Rightarrow> token \<Rightarrow> call list \<Rightarrow> (error + listUsers_response) \<times> call list" where
  "cognito_listUsers b poolId pageToken = remote (listUsers_reply b) (ListUsersCall poolId pageToken)"

definition cognito_listUserPools ::
  "backend \<Rightarrow> call list \<Rightarrow> nat \<Rightarrow> token \<Rightarrow> (error + listUserPools_response option) \<times> call list" where
  "cognito_listUserPools b h maxResults nextToken =
     remote (listUserPools_reply b) (ListUserPoolsCall maxResults nextToken) h"

definition cognitoIdentity_listIdentityPools ::
  "backend \<Rightarrow> call list \<Rightarrow> nat \<Rightarrow> token \<Rightarrow> (error + listIdentityPools_response option) \<times> call list" where
  "cognitoIdentity_listIdentityPools b h maxResults nextToken =
     remote (listIdentityPools_reply b) (ListIdentityPoolsCall maxResults nextToken) h"

definition describeIdentityPool ::
  "backend \<Rightarrow> string \<Rightarrow> call list \<Rightarrow> (error + describeIdentityPool_response option) \<times> call list" where
  "describeIdentityPool b identityPoolId =
     remote (describeIdentityPool_reply b) (DescribeIdentityPoolCall identityPoolId)"

definition cognito_describeUserPool ::
  "backend \<Rightarrow> string \<Rightarrow> call list \<Rightarrow> (error + describeUserPool_response) \<times> call list" where
  "cognito_describeUserPool b poolId = remote (describeUserPool_reply b) (DescribeUserPoolCall poolId)"

definition cognito_deleteUserPoolDomain ::
  "backend \<Rightarrow> string \<Rightarrow> string \<Rightarrow> call list \<Rightarrow> (error + unit) \<times> call list" where
  "cognito_deleteUserPoolDomain b poolId domain =
     remote (delete_reply b) (DeleteUserPoolDomainCall poolId domain)"

definition cognito_deleteUserPool :: "backend \<Rightarrow> string \<Rightarrow> call list \<Rightarrow> (error + unit) \<times> call list" where
  "cognito_deleteUserPool b poolId = remote (delete_reply b) (DeleteUserPoolCall poolId)"

definition cognitoIdentity_deleteIdentityPool ::
  "backend \<Rightarrow> string \<Rightarrow> call list \<Rightarrow> (error + unit) \<times> call list" where
  "cognitoIdentity_deleteIdentityPool b identityPoolId =
     remote (delete_reply b) (DeleteIdentityPoolCall identityPoolId)"

section \<open>User enumeration: \<open>getAllUsers\<close>\<close>

text \<open>
  One \<open>listUsers\<close> call per activation. The recursive calls are returned without
  \<open>await\<close>, so a rejection of a deeper activation is not caught by the \<open>catch\<close> of
  an outer one: only the rejection of this activation's own \<open>listUsers\<close> call reaches
  the \<open>catch\<close> block. The service is taken to send the \<open>Users\<close> array with every page.
  The request does not depend on \<open>includeCustomAttrs\<close> (the attribute list is commented
  out in the source).
\<close>

definition attributesDoNotExist :: "error \<Rightarrow> bool" where
  "attributesDoNotExist err =
     (error_name err = ''InvalidParameterException'' \<and>
      includesStr (error_message err) ''One or more requested attributes do not exist'')"

partial_function (option) getAllUsers ::
  "backend \<Rightarrow> string \<Rightarrow> user list \<Rightarrow> bool \<Rightarrow> token \<Rightarrow> call list \<Rightarrow>
   ((error + user list) \<times> call list) option"
where
  "getAllUsers b poolId accumedUsers includeCustomAttrs pageToken h =
     (case cognito_listUsers b poolId pageToken h of
        (Inr response, h') \<Rightarrow>
          (if truthy (PaginationToken response)
           then getAllUsers b poolId (accumedUsers @ Users response) includeCustomAttrs
                  (PaginationToken response) h'
           else Some (Inr (accumedUsers @ Users response), h'))
      | (Inl err, h') \<Rightarrow>
          (if includeCustomAttrs \<and> attributesDoNotExist err
           then getAllUsers b poolId accumedUsers False pageToken h'
           else Some (Inl err, h')))"

text \<open>
  The enumeration as the specification words it, for comparison: on the downgrade the
  whole enumeration starts again, with no accumulated users and no page token.
\<close>

partial_function (option) getAllUsers_spec ::
  "backend \<Rightarrow> string \<Rightarrow> user list \<Rightarrow> bool \<Rightarrow> token \<Rightarrow> call list \<Rightarrow>
   ((error + user list) \<times> call list) option"
where
  "getAllUsers_spec b poolId accumedUsers includeCustomAttrs pageToken h =
     (case cognito_listUsers b poolId pageToken h of
        (Inr response, h') \<Rightarrow>
          (if truthy (PaginationToken response)
           then getAllUsers_spec b poolId (accumedUsers @ Users response) includeCustomAttrs
                  (PaginationToken response) h'
           else Some (Inr (accumedUsers @ Users response), h'))
      | (Inl err, h') \<Rightarrow>
          (if includeCustomAttrs \<and> attributesDoNotExist err
           then getAllUsers_spec b poolId [] False None h'
           else Some (Inl err, h')))"

section \<open>Inventory caches: \<open>listUserPools\<close>, \<open>listIdentityPools\<close>\<close>

text \<open>
  The state of a run: the history of remote calls and the two module-level arrays. A
  listing is fetched when the cached array has length 0, and its items are pushed onto it.
\<close>

record run_state =
  history :: "call list"
  cachedUserPoolIds :: "user_pool list"
  cachedIdentityPoolIds :: "identity_pool list"

definition listUserPools :: "backend \<Rightarrow> run_state \<Rightarrow> ((error + user_pool list) \<times> run_state) option" where
  "listUserPools b st =
     (if length (cachedUserPoolIds st) = 0
      then (case pagedAWSCall (cognito_listUserPools b) 60 UserPools
                   (\<lambda>response result. UserPools_NextToken response) (history st) of
              None \<Rightarrow> None
            | Some (Inl err, h') \<Rightarrow> Some (Inl err, st\<lparr>history := h'\<rparr>)
            | Some (Inr result, h') \<Rightarrow>
                Some (Inr (cachedUserPoolIds st @ result),
                      st\<lparr>history := h', cachedUserPoolIds := cachedUserPoolIds st @ result\<rparr>))
      else Some (Inr (cachedUserPoolIds st), st))"

definition listIdentityPools ::
  "backend \<Rightarrow> run_state \<Rightarrow> ((error + identity_pool list) \<times> run_state) option" where
  "listIdentityPools b st =
     (if length (cachedIdentityPoolIds st) = 0
      then (case pagedAWSCall (cognitoIdentity_listIdentityPools b) 60 IdentityPools
                   (\<lambda>response result. IdentityPools_NextToken response) (history st) of
              None \<Rightarrow> None
            | Some (Inl err, h') \<Rightarrow> Some (Inl err, st\<lparr>history := h'\<rparr>)
            | Some (Inr result, h') \<Rightarrow>
                Some (Inr (cachedIdentityPoolIds st @ result),
                      st\<lparr>history := h', cachedIdentityPoolIds := cachedIdentityPoolIds st @ result\<rparr>))
      else Some (Inr (cachedIdentityPoolIds st), st))"

section \<open>Classification of user pools\<close>

text \<open>
  The body of the first loop of \<open>main\<close> for one pool, given the outcome of
  \<open>getAllUsers(poolId)\<close>: the \<open>try\<close> block on a list of users, the \<open>catch\<close> block (which
  only logs) on a rejection.
\<close>

definition classifyUserPool :: "user_pool \<Rightarrow> error + user list \<Rightarrow> user_pool" where
  "classifyUserPool pool outcome =
     (case outcome of
        Inl err \<Rightarrow> pool
      | Inr users \<Rightarrow>
          (let isAllUserForceChangePassword =
                 (length users > 0 \<and>
                  list_all (\<lambda>poolUser. UserStatus poolUser = Some ''FORCE_CHANGE_PASSWORD'') users);
               isEmptyUsers = (length users = 0);
               pool1 = (if isEmptyUsers
                        then pool\<lparr>isPrepareToDelete := Some True,
                                  reasonDelete := Some ''Is empty users'',
                                  poolUsers := Some users\<rparr>
                        else pool)
           in if isAllUserForceChangePassword
              then pool1\<lparr>isPrepareToDelete := Some True,
                         poolUsers := Some users,
                         reasonDelete := Some ''Is all users force change password''\<rparr>
              else pool1))"

fun classifyUserPools ::
  "backend \<Rightarrow> user_pool list \<Rightarrow> call list \<Rightarrow> (user_pool list \<times> call list) option" where
  "classifyUserPools b [] h = Some ([], h)"
| "classifyUserPools b (pool # pools) h =
     (case getAllUsers b (PoolId pool) [] True None h of
        None \<Rightarrow> None
      | Some (outcome, h') \<Rightarrow>
          (case classifyUserPools b pools h' of
             None \<Rightarrow> None
           | Some (pools', h'') \<Rightarrow> Some (classifyUserPool pool outcome # pools', h'')))"

definition deletePoolsOf :: "'a verdict_scheme list \<Rightarrow> 'a verdict_scheme list" where
  "deletePoolsOf pools = filter (\<lambda>pool. marked pool) pools"

definition realPoolsOf :: "'a verdict_scheme list \<Rightarrow> 'a verdict_scheme list" where
  "realPoolsOf pools = filter (\<lambda>pool. \<not> marked pool) pools"

section \<open>Classification of identity pools\<close>

text \<open>\<open>providerName?.endsWith(...)\<close> and \<open>providerName?.startsWith(...)\<close> are
  \<open>undefined\<close>, hence falsy, when the provider has no name.\<close>

definition findUserPoolByProviderName :: "user_pool list \<Rightarrow> string option \<Rightarrow> user_pool list" where
  "findUserPoolByProviderName realPools providerName =
     (let userPoolMatchs =
            filter (\<lambda>pool. case providerName of
                              None \<Rightarrow> False
                            | Some n \<Rightarrow> endsWith n (''/'' @ PoolId pool)) realPools
      in if (case providerName of None \<Rightarrow> False | Some n \<Rightarrow> startsWith n ''cognito-idp'')
            \<and> length userPoolMatchs > 0
         then userPoolMatchs else [])"

definition TypeError :: error where
  "TypeError = Error ''TypeError'' ''Cannot read properties of undefined''"

definition showName :: "string option \<Rightarrow> string" where
  "showName providerName = (case providerName of None \<Rightarrow> ''undefined'' | Some n \<Rightarrow> n)"

text \<open>
  The body of the identity-pool loop after the describe call has resolved. The first test
  reads \<open>response?.CognitoIdentityProviders?.length\<close>; the second one reads
  \<open>response?.CognitoIdentityProviders.length\<close>, which throws a \<open>TypeError\<close> when the
  response is there and has no provider array.
\<close>

definition classifyIdentityPool ::
  "user_pool list \<Rightarrow> identity_pool \<Rightarrow> describeIdentityPool_response option \<Rightarrow> error + identity_pool"
where
  "classifyIdentityPool realPools identityPool response =
     (case response of
        None \<Rightarrow> Inr identityPool
      | Some r \<Rightarrow>
          (case CognitoIdentityProviders r of
             None \<Rightarrow> Inl TypeError
           | Some providers \<Rightarrow>
               if length providers = 0
               then Inr (identityPool\<lparr>isPrepareToDelete := Some True,
                                       reasonDelete := Some ''CognitoIdentityProviders empty''\<rparr>)
               else if length providers = 1
               then (let providerName = ProviderName (hd providers);
                         userPoolMatchs = findUserPoolByProviderName realPools providerName
                     in if length userPoolMatchs = 0
                        then Inr (identityPool\<lparr>isPrepareToDelete := Some True,
                                    reasonDelete := Some (''ProviderName '' @ showName providerName
                                                          @ '' not match any user pool'')\<rparr>)
                        else Inr identityPool)
               else Inr identityPool))"

text \<open>
  The loop has no \<open>try\<close>: a rejection or an exception leaves the loop and \<open>main\<close>.
  The identity pools are marked in place, so the function returns the array as it stands
  when the loop ends: the pools classified so far, then the ones not reached.
\<close>

fun classifyIdentityPools ::
  "backend \<Rightarrow> user_pool list \<Rightarrow> identity_pool list \<Rightarrow> call list \<Rightarrow>
   (error + unit) \<times> identity_pool list \<times> call list" where
  "classifyIdentityPools b realPools [] h = (Inr (), [], h)"
| "classifyIdentityPools b realPools (identityPool # rest) h =
     (case describeIdentityPool b (IdentityPoolId identityPool) h of
        (Inl err, h') \<Rightarrow> (Inl err, identityPool # rest, h')
      | (Inr response, h') \<Rightarrow>
          (case classifyIdentityPool realPools identityPool response of
             Inl err \<Rightarrow> (Inl err, identityPool # rest, h')
           | Inr identityPool' \<Rightarrow>
               (case classifyIdentityPools b realPools rest h' of
                  (outcome, rest', h'') \<Rightarrow> (outcome, identityPool' # rest', h''))))"

section \<open>Retirement\<close>

text \<open>The user-pool deletion loop of \<open>index.ts\<close>: describe, delete the domain when the
  description has a truthy \<open>Domain\<close>, delete the pool.\<close>

fun deleteUserPools :: "backend \<Rightarrow> user_pool list \<Rightarrow> call list \<Rightarrow> (error + unit) \<times> call list" where
  "deleteUserPools b [] h = (Inr (), h)"
| "deleteUserPools b (deletePool # rest) h =
     (case cognito_describeUserPool b (PoolId deletePool) h of
        (Inl err, h1) \<Rightarrow> (Inl err, h1)
      | (Inr deleteUP, h1) \<Rightarrow>
          (let domain = (case UserPool deleteUP of None \<Rightarrow> None | Some up \<Rightarrow> UserPoolDomain up);
               (domainDeleted, h2) =
                  (case domain of
                     None \<Rightarrow> (Inr (), h1)
                   | Some d \<Rightarrow>
                       if truthy domain
                       then cognito_deleteUserPoolDomain b (PoolId deletePool) d h1
                       else (Inr (), h1))
           in case domainDeleted of
                Inl err \<Rightarrow> (Inl err, h2)
              | Inr u \<Rightarrow>
                  (case cognito_deleteUserPool b (PoolId deletePool) h2 of
                     (Inl err, h3) \<Rightarrow> (Inl err, h3)
                   | (Inr u', h3) \<Rightarrow> deleteUserPools b rest h3)))"

text \<open>The user-pool deletion loop of the second entry point: the pool is deleted directly.\<close>

fun deleteUserPools_direct :: "backend \<Rightarrow> user_pool list \<Rightarrow> call list \<Rightarrow> (error + unit) \<times> call list" where
  "deleteUserPools_direct b [] h = (Inr (), h)"
| "deleteUserPools_direct b (deletePool # rest) h =
     (case cognito_deleteUserPool b (PoolId deletePool) h of
        (Inl err, h') \<Rightarrow> (Inl err, h')
      | (Inr u, h') \<Rightarrow> deleteUserPools_direct b rest h')"

fun deleteIdentityPools :: "backend \<Rightarrow> identity_pool list \<Rightarrow> call list \<Rightarrow> (error + unit) \<times> call list" where
  "deleteIdentityPools b [] h = (Inr (), h)"
| "deleteIdentityPools b (deleteIdentityPool # rest) h =
     (case cognitoIdentity_deleteIdentityPool b (IdentityPoolId deleteIdentityPool) h of
        (Inl err, h') \<Rightarrow> (Inl err, h')
      | (Inr u, h') \<Rightarrow> deleteIdentityPools b rest h')"

section \<open>\<open>main\<close>\<close>

text \<open>
  \<open>main\<close> of both entry points (\<open>index.ts\<close> and the second source file), which
  differ in the user-pool deletion loop only (the first argument). The pool objects are
  mutated in place, so each cached array holds its pools as classified so far, also when
  \<open>main\<close> ends with a rejection. Logging and the four JSON files are left out.
\<close>

definition main ::
  "(backend \<Rightarrow> user_pool list \<Rightarrow> call list \<Rightarrow> (error + unit) \<times> call list) \<Rightarrow>
   backend \<Rightarrow> run_state \<Rightarrow> ((error + unit) \<times> run_state) option" where
  "main deleteLoop b st =
     (case listUserPools b st of
        None \<Rightarrow> None
      | Some (Inl err, st1) \<Rightarrow> Some (Inl err, st1)
      | Some (Inr pools, st1) \<Rightarrow>
          (case classifyUserPools b pools (history st1) of
             None \<Rightarrow> None
           | Some (pools', h2) \<Rightarrow>
               (let st2 = st1\<lparr>history := h2, cachedUserPoolIds := pools'\<rparr>;
                    deletePools = deletePoolsOf pools';
                    realPools = realPoolsOf pools'
                in case listIdentityPools b st2 of
                     None \<Rightarrow> None
                   | Some (Inl err, st3) \<Rightarrow> Some (Inl err, st3)
                   | Some (Inr identityPools, st3) \<Rightarrow>
                       (case classifyIdentityPools b realPools identityPools (history st3) of
                          (Inl err, identityPools', h4) \<Rightarrow>
                            Some (Inl err, st3\<lparr>history := h4,
                                               cachedIdentityPoolIds := identityPools'\<rparr>)
                        | (Inr u, identityPools', h4) \<Rightarrow>
                            (let deleteIdentityPoolList = deletePoolsOf identityPools';
                                 st4 = st3\<lparr>history := h4, cachedIdentityPoolIds := identityPools'\<rparr>
                             in case deleteLoop b deletePools h4 of
                                  (Inl err, h5) \<Rightarrow> Some (Inl err, st4\<lparr>history := h5\<rparr>)
                                | (Inr u', h5) \<Rightarrow>
                                    (case deleteIdentityPools b deleteIdentityPoolList h5 of
                                       (outcome, h6) \<Rightarrow> Some (outcome, st4\<lparr>history := h6\<rparr>)))))))"

definition main_index :: "backend \<Rightarrow> run_state \<Rightarrow> ((error + unit) \<times> run_state) option" where
  "main_index = main deleteUserPools"

definition main_second :: "backend \<Rightarrow> run_state \<Rightarrow> ((error + unit) \<times> run_state) option" where
  "main_second = main deleteUserPools_direct"

section \<open>Anonymization: \<open>scrubbedEmailMemo\<close>, \<open>scrubPoolUser\<close>\<close>

text \<open>String operations of the scrubber: \<open>s.indexOf(c)\<close> (\<open>-1\<close> when absent),
  \<open>s.substring(i)\<close> (a negative start counts as 0), \<open>s.split(c)\<close>, \<open>xs[i]\<close>
  (\<open>undefined\<close> out of range) and \<open>s.replace(c, d)\<close>, which replaces the first
  occurrence only.\<close>

fun indexOf :: "string \<Rightarrow> char \<Rightarrow> int" where
  "indexOf [] c = - 1"
| "indexOf (x # xs) c =
     (if x = c then 0 else (let i = indexOf xs c in if i < 0 then - 1 else i + 1))"

definition substring :: "string \<Rightarrow> int \<Rightarrow> string" where
  "substring s i = drop (nat i) s"

fun splitStr :: "string \<Rightarrow> char \<Rightarrow> string list" where
  "splitStr [] c = [ [] ]"
| "splitStr (x # xs) c =
     (if x = c then [] # splitStr xs c
      else (case splitStr xs c of [] \<Rightarrow> [ [x] ] | w # ws \<Rightarrow> (x # w) # ws))"

definition at :: "'a list \<Rightarrow> nat \<Rightarrow> 'a option" where
  "at xs i = (if i < length xs then Some (xs ! i) else None)"

fun replaceFirst :: "string \<Rightarrow> char \<Rightarrow> char \<Rightarrow> string" where
  "replaceFirst [] c d = []"
| "replaceFirst (x # xs) c d = (if x = c then d # xs else x # replaceFirst xs c d)"

text \<open>The fields \<open>first\<close>, \<open>last\<close> and \<open>email\<close> of the fabricated identity.\<close>

record scrubbed =
  scrubbed_first :: "string option"
  scrubbed_last :: "string option"
  scrubbed_email :: string

text \<open>
  The function under \<open>memoize\<close>. The name generator of the \<open>moniker\<close> package is a
  parameter: \<open>names_choose\<close> (the method \<open>names.choose()\<close>) takes the generator's
  state and returns a name and the next state.
\<close>

definition scrubbedEmail :: "('g \<Rightarrow> string \<times> 'g) \<Rightarrow> string \<Rightarrow> 'g \<Rightarrow> scrubbed \<times> 'g" where
  "scrubbedEmail names_choose email g =
     (let domain = substring email (indexOf email CHR ''@'');
          (name, g') = names_choose g;
          first = at (splitStr name CHR ''-'') 0;
          last = at (splitStr name CHR ''-'') 1;
          newEmail = replaceFirst name CHR ''-'' CHR ''.'' @ domain
      in (\<lparr>scrubbed_first = first, scrubbed_last = last, scrubbed_email = newEmail\<rparr>, g'))"

text \<open>
  \<open>memoize\<close> of the \<open>lodash\<close> package keeps a cache keyed by the first argument: a key
  that is in the cache returns the stored result without calling the function, any other
  key calls it and stores the result.
\<close>

record 'g scrub_state =
  memo_cache :: "string \<rightharpoonup> scrubbed"
  names_state :: 'g

definition scrubbedEmailMemo ::
  "('g \<Rightarrow> string \<times> 'g) \<Rightarrow> string \<Rightarrow> 'g scrub_state \<Rightarrow> scrubbed \<times> 'g scrub_state" where
  "scrubbedEmailMemo names_choose email st =
     (case memo_cache st email of
        Some r \<Rightarrow> (r, st)
      | None \<Rightarrow>
          (let (r, g') = scrubbedEmail names_choose email (names_state st)
           in (r, st\<lparr>memo_cache := (memo_cache st)(email \<mapsto> r), names_state := g'\<rparr>)))"

definition scrubbedNames :: "string list" where
  "scrubbedNames = [''given_name'', ''family_name'', ''preferred_name'', ''email'']"

text \<open>
  \<open>scrubPoolUser\<close>, in three parts. \<open>oldEmailOf\<close> is the value of the constant
  \<open>oldEmail\<close>: the value of the first \<open>email\<close> attribute, the empty string when there
  is none. \<open>scrubbedUser\<close> is the object the function returns for a fabricated identity:
  the spread \<open>{...user, Username, Attributes}\<close> copies every other field. An \<open>email\<close>
  attribute without a value makes \<open>oldEmail.endsWith\<close> throw.
\<close>

definition oldEmailOf :: "'a user_scheme \<Rightarrow> string option" where
  "oldEmailOf usr =
     Value (case find (\<lambda>attr. Name attr = ''email'') (Attributes usr) of
              Some attr \<Rightarrow> attr
            | None \<Rightarrow> \<lparr>Name = ''email'', Value = Some []\<rparr>)"

definition scrubbedUser :: "'a user_scheme \<Rightarrow> scrubbed \<Rightarrow> 'a user_scheme" where
  "scrubbedUser usr r =
     (let isUserNameAnEmail = (indexOf (Username usr) CHR ''@'' \<ge> 0)
      in usr\<lparr>Username := (if isUserNameAnEmail then scrubbed_email r else Username usr),
              Attributes :=
                filter (\<lambda>attr. Name attr \<notin> set scrubbedNames) (Attributes usr)
                @ [\<lparr>Name = ''email'', Value = Some (scrubbed_email r)\<rparr>,
                   \<lparr>Name = ''given_name'', Value = scrubbed_first r\<rparr>,
                   \<lparr>Name = ''family_name'', Value = scrubbed_last r\<rparr>]\<rparr>)"

definition scrubPoolUser ::
  "('g \<Rightarrow> string \<times> 'g) \<Rightarrow> 'a user_scheme \<Rightarrow> 'g scrub_state \<Rightarrow>
   (error + 'a user_scheme) \<times> 'g scrub_state" where
  "scrubPoolUser names_choose usr st =
     (case oldEmailOf usr of
        None \<Rightarrow> (Inl TypeError, st)
      | Some oldEmail \<Rightarrow>
          if endsWith oldEmail ''cleo.com'' \<or> endsWith oldEmail ''mailosaur.io''
          then (Inr usr, st)
          else (let (r, st') = scrubbedEmailMemo names_choose oldEmail st
                in (Inr (scrubbedUser usr r), st')))"

section \<open>Scripted backends\<close>

text \<open>
  A scripted action answers its \<open>i\<close>-th invocation with \<open>pages i\<close>, whatever it is asked,
  and records the cursor it was invoked with. Every run of \<open>pagedAWSCall\<close> against any
  backend sees such a sequence of answers.
\<close>

definition scripted ::
  "(nat \<Rightarrow> error + 'r option) \<Rightarrow> token list \<Rightarrow> 'p \<Rightarrow> token \<Rightarrow> (error + 'r option) \<times> token list"
where
  "scripted pages calls params tok = (pages (length calls), calls @ [tok])"

text \<open>The items a page carries (none for a rejection, a falsy response or a falsy item list).\<close>

definition itemsOf :: "('r \<Rightarrow> 'd list option) \<Rightarrow> (error + 'r option) \<Rightarrow> 'd list" where
  "itemsOf accessor page =
     (case page of
        Inr (Some r) \<Rightarrow> (case accessor r of Some items \<Rightarrow> items | None \<Rightarrow> [])
      | _ \<Rightarrow> [])"

text \<open>The items of the first \<open>n\<close> pages, first page first.\<close>

definition fetched :: "('r \<Rightarrow> 'd list option) \<Rightarrow> (nat \<Rightarrow> error + 'r option) \<Rightarrow> nat \<Rightarrow> 'd list" where
  "fetched accessor pages n = concat (map (\<lambda>i. itemsOf accessor (pages i)) [0..<n])"

text \<open>The cursor extracted from page \<open>i\<close>, given the items accumulated up to that page.\<close>

definition cursorAt ::
  "('r \<Rightarrow> 'd list option) \<Rightarrow> ('r \<Rightarrow> 'd list \<Rightarrow> token) \<Rightarrow> (nat \<Rightarrow> error + 'r option) \<Rightarrow> nat \<Rightarrow> token"
where
  "cursorAt accessor getNextToken pages i =
     (case pages i of
        Inr (Some r) \<Rightarrow> getNextToken r (fetched accessor pages (Suc i))
      | _ \<Rightarrow> None)"

definition isRejection :: "(error + 'a) \<Rightarrow> bool" where
  "isRejection x = (case x of Inl _ \<Rightarrow> True | Inr _ \<Rightarrow> False)"

section \<open>Traces of the paged fetch\<close>

text \<open>
  For an arbitrary action: \<open>fetches action params accessor getNextToken acc tok w rs w'\<close>
  says that, started with the accumulated items \<open>acc\<close>, the cursor \<open>tok\<close> and the
  world \<open>w\<close>, the successive invocations of the action are answered with the responses
  \<open>rs\<close> and leave the world \<open>w'\<close>, every response but the last yielding a truthy
  cursor (with which the next invocation is made) and the last one a falsy cursor.
\<close>

definition itemsIn :: "('r \<Rightarrow> 'd list option) \<Rightarrow> 'r option \<Rightarrow> 'd list" where
  "itemsIn accessor response =
     (case response of
        None \<Rightarrow> []
      | Some r \<Rightarrow> (case accessor r of None \<Rightarrow> [] | Some items \<Rightarrow> items))"

definition cursorOf :: "('r \<Rightarrow> 'd list \<Rightarrow> token) \<Rightarrow> 'r option \<Rightarrow> 'd list \<Rightarrow> token" where
  "cursorOf getNextToken response acc =
     (case response of None \<Rightarrow> None | Some r \<Rightarrow> getNextToken r acc)"

inductive fetches ::
  "('w \<Rightarrow> 'p \<Rightarrow> token \<Rightarrow> (error + 'r option) \<times> 'w) \<Rightarrow> 'p \<Rightarrow> ('r \<Rightarrow> 'd list option) \<Rightarrow>
   ('r \<Rightarrow> 'd list \<Rightarrow> token) \<Rightarrow> 'd list \<Rightarrow> token \<Rightarrow> 'w \<Rightarrow> 'r option list \<Rightarrow> 'w \<Rightarrow> bool"
  for action params accessor getNextToken
where
  last_page:
    "action w params tok = (Inr response, w') \<Longrightarrow>
     \<not> truthy (cursorOf getNextToken response (acc @ itemsIn accessor response)) \<Longrightarrow>
     fetches action params accessor getNextToken acc tok w [response] w'"
| next_page:
    "action w params tok = (Inr response, w') \<Longrightarrow>
     truthy (cursorOf getNextToken response (acc @ itemsIn accessor response)) \<Longrightarrow>
     fetches action params accessor getNextToken (acc @ itemsIn accessor response)
       (cursorOf getNextToken response (acc @ itemsIn accessor response)) w' responses w'' \<Longrightarrow>
     fetches action params accessor getNextToken acc tok w (response # responses) w''"

code_pred fetches .

section \<open>Retries of an enumeration\<close>

text \<open>
  Of the calls \<open>cs\<close> issued after the history \<open>h\<close>, the number of those that were
  rejected and nevertheless followed by another call: the retries.
\<close>

fun retried :: "(call list \<Rightarrow> error + 'a) \<Rightarrow> call list \<Rightarrow> call list \<Rightarrow> nat" where
  "retried reply h [] = 0"
| "retried reply h (c # cs) =
     (if cs \<noteq> [] \<and> isRejection (reply (h @ [c])) then 1 else 0) + retried reply (h @ [c]) cs"

section \<open>Outcomes of the classification of an identity pool\<close>


section \<open>Concrete inputs\<close>

text \<open>Three pages of sizes 3, 0 and 1; the empty page carries a cursor.\<close>

definition pages3 :: "nat \<Rightarrow> error + (nat list option \<times> token) option" where
  "pages3 i = (if i = 0 then Inr (Some (Some [1, 2, 3], Some ''a''))
               else if i = 1 then Inr (Some (Some [], Some ''b''))
               else Inr (Some (Some [7], None)))"

text \<open>A backend that rejects every call; the concrete backends below override one reply.\<close>

definition notScripted :: error where
  "notScripted = Error ''NotScripted'' []"

definition silent :: backend where
  "silent = \<lparr>listUserPools_reply = (\<lambda>h. Inl notScripted),
             listIdentityPools_reply = (\<lambda>h. Inl notScripted),
             listUsers_reply = (\<lambda>h. Inl notScripted),
             describeIdentityPool_reply = (\<lambda>h. Inl notScripted),
             describeUserPool_reply = (\<lambda>h. Inl notScripted),
             delete_reply = (\<lambda>h. Inl notScripted)\<rparr>"

definition attrError :: error where
  "attrError = Error ''InvalidParameterException'' ''One or more requested attributes do not exist''"

definition throttled :: error where
  "throttled = Error ''TooManyRequestsException'' ''Rate exceeded''"

definition mkUser :: "string \<Rightarrow> string \<Rightarrow> user" where
  "mkUser n s = \<lparr>Username = n, UserStatus = Some s, Attributes = []\<rparr>"

text \<open>\<open>listUsers\<close>: a first page with a cursor, then the attribute rejection, then a last page.\<close>

definition backend4 :: backend where
  "backend4 = silent\<lparr>listUsers_reply := (\<lambda>h.
      if length h = 1
      then Inr \<lparr>Users = [mkUser ''u1'' ''CONFIRMED''], PaginationToken = Some ''t''\<rparr>
      else if length h = 2 then Inl attrError
      else Inr \<lparr>Users = [mkUser ''u2'' ''CONFIRMED''], PaginationToken = None\<rparr>)\<rparr>"

text \<open>\<open>listUsers\<close>: a first page with a cursor, then the attribute rejection for good.\<close>

definition backend4_again :: backend where
  "backend4_again = silent\<lparr>listUsers_reply := (\<lambda>h.
      if length h = 1
      then Inr \<lparr>Users = [mkUser ''u1'' ''CONFIRMED''], PaginationToken = Some ''t''\<rparr>
      else Inl attrError)\<rparr>"

text \<open>\<open>listUsers\<close>: throttled.\<close>

definition backend4_throttled :: backend where
  "backend4_throttled = silent\<lparr>listUsers_reply := (\<lambda>h. Inl throttled)\<rparr>"

text \<open>A user pool fresh from a listing, and the same pool once marked.\<close>

definition poolA :: user_pool where
  "poolA = \<lparr>isPrepareToDelete = None, reasonDelete = None,
            PoolId = ''eu-central-1_A'', PoolName = ''organization-a'', poolUsers = None\<rparr>"

definition poolA_marked :: user_pool where
  "poolA_marked = poolA\<lparr>isPrepareToDelete := Some True,
                        reasonDelete := Some ''Is empty users'', poolUsers := Some []\<rparr>"

definition poolB :: user_pool where
  "poolB = \<lparr>isPrepareToDelete = None, reasonDelete = None,
            PoolId = ''eu-central-1_B'', PoolName = ''organization-b'', poolUsers = None\<rparr>"

definition identityPoolX :: identity_pool where
  "identityPoolX = \<lparr>isPrepareToDelete = None, reasonDelete = None,
                    IdentityPoolId = ''eu-central-1:x''\<rparr>"

definition identityPoolY :: identity_pool where
  "identityPoolY = \<lparr>isPrepareToDelete = None, reasonDelete = None,
                    IdentityPoolId = ''eu-central-1:y''\<rparr>"



text \<open>An account with one user pool, which has no users and a custom domain, and no
  identity pool; every call succeeds.\<close>

definition backend5 :: backend where
  "backend5 =
     \<lparr>listUserPools_reply = (\<lambda>h. Inr (Some \<lparr>UserPools = Some [poolA], UserPools_NextToken = None\<rparr>)),
      listIdentityPools_reply =
        (\<lambda>h. Inr (Some \<lparr>IdentityPools = Some [], IdentityPools_NextToken = None\<rparr>)),
      listUsers_reply = (\<lambda>h. Inr \<lparr>Users = [], PaginationToken = None\<rparr>),
      describeIdentityPool_reply = (\<lambda>h. Inl notScripted),
      describeUserPool_reply = (\<lambda>h. Inr \<lparr>UserPool = Some \<lparr>UserPoolDomain = Some ''auth-a''\<rparr>\<rparr>),
      delete_reply = (\<lambda>h. Inr ())\<rparr>"

definition freshRun :: run_state where
  "freshRun = \<lparr>history = [], cachedUserPoolIds = [], cachedIdentityPoolIds = []\<rparr>"

text \<open>An account whose describe and delete calls are throttled.\<close>

definition backend6 :: backend where
  "backend6 = silent\<lparr>describeIdentityPool_reply := (\<lambda>h. Inl throttled),
                      describeUserPool_reply := (\<lambda>h. Inl throttled),
                      delete_reply := (\<lambda>h. Inl throttled)\<rparr>"

text \<open>An account whose enumeration of the users of pool A is throttled, and whose pool B
  has no users.\<close>

definition backend6_users :: backend where
  "backend6_users = silent\<lparr>listUsers_reply := (\<lambda>h.
      if last h = ListUsersCall ''eu-central-1_A'' None then Inl throttled
      else Inr \<lparr>Users = [], PaginationToken = None\<rparr>)\<rparr>"

text \<open>An account without user pools, and one with the user pool A.\<close>

definition backend9 :: backend where
  "backend9 = silent\<lparr>listUserPools_reply :=
      (\<lambda>h. Inr (Some \<lparr>UserPools = Some [], UserPools_NextToken = None\<rparr>))\<rparr>"

definition backend9_pools :: backend where
  "backend9_pools = silent\<lparr>
      listUserPools_reply :=
        (\<lambda>h. Inr (Some \<lparr>UserPools = Some [poolA], UserPools_NextToken = None\<rparr>)),
      listIdentityPools_reply :=
        (\<lambda>h. Inr (Some \<lparr>IdentityPools = Some [identityPoolX], IdentityPools_NextToken = None\<rparr>))\<rparr>"

section \<open>Runs of the scrubber\<close>

text \<open>The state after the memoized transform has been called with each of the given
  email addresses in turn.\<close>

fun scrubbedEmails ::
  "('g \<Rightarrow> string \<times> 'g) \<Rightarrow> string list \<Rightarrow> 'g scrub_state \<Rightarrow> 'g scrub_state" where
  "scrubbedEmails names_choose [] st = st"
| "scrubbedEmails names_choose (email # emails) st =
     scrubbedEmails names_choose emails (snd (scrubbedEmailMemo names_choose email st))"

text \<open>A name generator that yields \<open>happy-cat\<close> first and \<open>brave-otter\<close> ever after,
  and the state of a run that has scrubbed nothing yet.\<close>

definition stubNames :: "nat \<Rightarrow> string \<times> nat" where
  "stubNames i = (if i = 0 then ''happy-cat'' else ''brave-otter'', Suc i)"

definition freshScrub :: "nat scrub_state" where
  "freshScrub = \<lparr>memo_cache = Map.empty, names_state = 0\<rparr>"

definition mkAttr :: "string \<Rightarrow> string \<Rightarrow> attribute" where
  "mkAttr n v = \<lparr>Name = n, Value = Some v\<rparr>"

definition userAlice :: user where
  "userAlice = \<lparr>Username = ''alice@example.com'', UserStatus = Some ''CONFIRMED'',
                Attributes = [mkAttr ''sub'' ''1234'', mkAttr ''email'' ''alice@example.com'',
                              mkAttr ''preferred_name'' ''Al'', mkAttr ''custom:company'' ''Acme'']\<rparr>"

definition userBob :: user where
  "userBob = \<lparr>Username = ''bob'', UserStatus = Some ''CONFIRMED'',
              Attributes = [mkAttr ''email'' ''bob@cleo.com'', mkAttr ''given_name'' ''Bob'']\<rparr>"

definition userCarol :: user where
  "userCarol = \<lparr>Username = ''carol'', UserStatus = Some ''CONFIRMED'',
                Attributes = [mkAttr ''sub'' ''77'']\<rparr>"

definition userDave :: user where
  "userDave = \<lparr>Username = ''dave'', UserStatus = Some ''FORCE_CHANGE_PASSWORD'',
               Attributes = [mkAttr ''given_name'' ''Dave'']\<rparr>"

definition userEve :: user where
  "userEve = \<lparr>Username = ''eve'', UserStatus = Some ''CONFIRMED'',
              Attributes = [mkAttr ''email'' ''cleo.com'']\<rparr>"

definition aliceScrubbed :: user where
  "aliceScrubbed = \<lparr>Username = ''happy.cat@example.com'', UserStatus = Some ''CONFIRMED'',
                    Attributes = [mkAttr ''sub'' ''1234'', mkAttr ''custom:company'' ''Acme'',
                                  mkAttr ''email'' ''happy.cat@example.com'',
                                  mkAttr ''given_name'' ''happy'',
                                  mkAttr ''family_name'' ''cat'']\<rparr>"

definition happyCat :: scrubbed where
  "happyCat = \<lparr>scrubbed_first = Some ''happy'', scrubbed_last = Some ''cat'',
               scrubbed_email = ''happy.cat''\<rparr>"

definition userFrank :: user where
  "userFrank = \<lparr>Username = ''frank'', UserStatus = Some ''CONFIRMED'',
                Attributes = [mkAttr ''email'' ''frank'']\<rparr>"

section \<open>Accounts with failing calls\<close>


text \<open>The account of \<open>backend5\<close> with every delete call throttled.\<close>

definition backend6_domain :: backend where
  "backend6_domain = backend5\<lparr>delete_reply := (\<lambda>h. Inl throttled)\<rparr>"

text \<open>The same account where the domain is deleted and the deletion of the pool is
  throttled.\<close>

definition backend6_pool :: backend where
  "backend6_pool = backend5\<lparr>delete_reply := (\<lambda>h.
      case last h of DeleteUserPoolDomainCall poolId domain \<Rightarrow> Inr () | _ \<Rightarrow> Inl throttled)\<rparr>"

text \<open>The same account without a domain, every delete call throttled.\<close>

definition backend6_nodomain :: backend where
  "backend6_nodomain = backend5\<lparr>
      describeUserPool_reply := (\<lambda>h. Inr \<lparr>UserPool = Some \<lparr>UserPoolDomain = None\<rparr>\<rparr>),
      delete_reply := (\<lambda>h. Inl throttled)\<rparr>"

text \<open>The account of \<open>backend5\<close> with the identity pools X and Y: X has no provider,
  the describe call for Y is rejected.\<close>

definition backend6_identity :: backend where
  "backend6_identity = backend5\<lparr>
      listIdentityPools_reply :=
        (\<lambda>h. Inr (Some \<lparr>IdentityPools = Some [identityPoolX, identityPoolY],
                           IdentityPools_NextToken = None\<rparr>)),
      describeIdentityPool_reply := (\<lambda>h.
        if last h = DescribeIdentityPoolCall ''eu-central-1:x''
        then Inr (Some \<lparr>CognitoIdentityProviders = Some []\<rparr>)
        else Inl throttled)\<rparr>"

text \<open>An account where the user pool A is deleted with its domain and the describe call
  for the user pool B is rejected.\<close>

definition backend6_later :: backend where
  "backend6_later = backend5\<lparr>describeUserPool_reply := (\<lambda>h.
      if last h = DescribeUserPoolCall ''eu-central-1_B'' then Inl throttled
      else Inr \<lparr>UserPool = Some \<lparr>UserPoolDomain = Some ''auth-a''\<rparr>\<rparr>)\<rparr>"

text \<open>The account of \<open>backend5\<close> with the identity pool X, which has no provider; the
  user pool is deleted with its domain and the deletion of the identity pool is throttled.\<close>

definition backend6_last :: backend where
  "backend6_last = backend5\<lparr>
      listIdentityPools_reply :=
        (\<lambda>h. Inr (Some \<lparr>IdentityPools = Some [identityPoolX], IdentityPools_NextToken = None\<rparr>)),
      describeIdentityPool_reply := (\<lambda>h. Inr (Some \<lparr>CognitoIdentityProviders = Some []\<rparr>)),
      delete_reply := (\<lambda>h.
        case last h of DeleteIdentityPoolCall identityPoolId \<Rightarrow> Inl throttled | _ \<Rightarrow> Inr ())\<rparr>"

definition identityPoolX_marked :: identity_pool where
  "identityPoolX_marked = identityPoolX\<lparr>isPrepareToDelete := Some True,
                             reasonDelete := Some ''CognitoIdentityProviders empty''\<rparr>"

section \<open>Basic facts\<close>

lemma truthy_None [simp]: "\<not> truthy None"
  by (simp add: truthy_def)

lemma truthy_Some [simp]: "truthy (Some s) = (s \<noteq> [])"
  by (simp add: truthy_def)

section \<open>Paged fetch\<close>

lemma fetched_Suc:
  "fetched accessor pages (Suc n) = fetched accessor pages n @ itemsOf accessor (pages n)"
  by (simp add: fetched_def)

lemma loop_step_result:
  "pages n = Inr response \<Longrightarrow>
   (case response of None \<Rightarrow> fetched accessor pages n
    | Some r \<Rightarrow> (case accessor r of None \<Rightarrow> fetched accessor pages n
                | Some items \<Rightarrow> fetched accessor pages n @ items))
   = fetched accessor pages (Suc n)"
  by (simp add: fetched_Suc itemsOf_def split: option.splits)

lemma loop_step_token:
  "pages n = Inr response \<Longrightarrow>
   (case response of None \<Rightarrow> None
    | Some r \<Rightarrow> getNextToken r (fetched accessor pages (Suc n)))
   = cursorAt accessor getNextToken pages n"
  by (simp add: cursorAt_def split: option.splits)

lemma cursor_truthy_not_rejected:
  "truthy (cursorAt accessor getNextToken pages i) \<Longrightarrow> \<exists>response. pages i = Inr response"
  by (cases "pages i") (simp_all add: cursorAt_def)

text \<open>The loop entered before call \<open>n\<close> with the items of the first \<open>n\<close> pages runs up
  to the first page \<open>k\<close> whose cursor is falsy.\<close>

lemma loop_from:
  assumes "\<forall>i. n \<le> i \<and> i < k \<longrightarrow> truthy (cursorAt accessor getNextToken pages i)"
    and "\<not> isRejection (pages k)"
    and "\<not> truthy (cursorAt accessor getNextToken pages k)"
    and "length calls = n" and "n \<le> k" and "d = k - n"
  shows "pagedAWSCall_loop (scripted pages) params accessor getNextToken
           (fetched accessor pages n) tok calls
         = Some (Inr (fetched accessor pages (Suc k)),
                 calls @ tok # map (cursorAt accessor getNextToken pages) [n..<k])"
  using assms
proof (induction d arbitrary: n calls tok)
  case 0
  then have nk: "n = k" by simp
  from 0(2) obtain response where r: "pages k = Inr response"
    by (cases "pages k") (simp_all add: isRejection_def)
  show ?case
    using 0(3) 0(4) r
    by (subst pagedAWSCall_loop.simps)
       (simp add: nk scripted_def loop_step_result loop_step_token Let_def)
next
  case (Suc d)
  then have lt: "n < k" by simp
  with Suc.prems(1) have t: "truthy (cursorAt accessor getNextToken pages n)" by simp
  then obtain response where r: "pages n = Inr response"
    using cursor_truthy_not_rejected by blast
  have ih: "pagedAWSCall_loop (scripted pages) params accessor getNextToken
              (fetched accessor pages (Suc n)) (cursorAt accessor getNextToken pages n) (calls @ [tok])
            = Some (Inr (fetched accessor pages (Suc k)),
                 (calls @ [tok]) @ cursorAt accessor getNextToken pages n
                    # map (cursorAt accessor getNextToken pages) [Suc n..<k])"
    using Suc.prems lt by (intro Suc.IH) auto
  show ?case
    using t r lt Suc.prems(4) ih
    by (subst pagedAWSCall_loop.simps)
       (simp add: scripted_def loop_step_result loop_step_token Let_def upt_conv_Cons)
qed

text \<open>
  Claim C3. Let the backend answer the successive invocations of the action with
  \<open>pages 0\<close>, \<open>pages 1\<close>, ... and let page \<open>k\<close> be the first one from which the
  cursor-extraction function yields no cursor (\<open>undefined\<close> or the empty string, which
  the loop test takes for none; a falsy response yields none either). Then
  \<open>pagedAWSCall\<close> returns the items of the pages \<open>0\<close> to \<open>k\<close> concatenated in
  arrival order, whether or not a page carries items, and the action is invoked exactly
  \<open>k + 1\<close> times, first without a cursor and then with the cursor of each page before
  page \<open>k\<close>.
\<close>

theorem pagedAWSCall_concatenates_pages:
  assumes "\<forall>i<k. truthy (cursorAt accessor getNextToken pages i)"
    and "\<not> isRejection (pages k)"
    and "\<not> truthy (cursorAt accessor getNextToken pages k)"
  shows "pagedAWSCall (scripted pages) params accessor getNextToken []
         = Some (Inr (fetched accessor pages (Suc k)),
                 None # map (cursorAt accessor getNextToken pages) [0..<k])"
proof -
  have "pagedAWSCall_loop (scripted pages) params accessor getNextToken
          (fetched accessor pages 0) None []
        = Some (Inr (fetched accessor pages (Suc k)),
                [] @ None # map (cursorAt accessor getNextToken pages) [0..<k])"
    using assms by (intro loop_from) auto
  then show ?thesis
    by (simp add: pagedAWSCall_def fetched_def)
qed

theorem pagedAWSCall_concatenates_pages_witness:
  "pagedAWSCall (scripted pages3) () fst (\<lambda>r acc. snd r) []
   = Some (Inr [1, 2, 3, 7], [None, Some ''a'', Some ''b''])"
proof -
  have c0: "cursorAt fst (\<lambda>r acc. snd r) pages3 0 = Some ''a''"
    by (simp add: cursorAt_def pages3_def)
  have c1: "cursorAt fst (\<lambda>r acc. snd r) pages3 (Suc 0) = Some ''b''"
    by (simp add: cursorAt_def pages3_def)
  have c2: "cursorAt fst (\<lambda>r acc. snd r) pages3 2 = None"
    by (simp add: cursorAt_def pages3_def)
  have h1: "\<forall>i<2. truthy (cursorAt fst (\<lambda>r acc. snd r) pages3 i)"
    by (simp add: less_Suc_eq numeral_2_eq_2 c0 c1)
  have h2: "\<not> isRejection (pages3 2)"
    by (simp add: isRejection_def pages3_def)
  have h3: "\<not> truthy (cursorAt fst (\<lambda>r acc. snd r) pages3 2)"
    by (simp add: c2)
  have f: "fetched fst pages3 (Suc 2) = [1, 2, 3, 7]"
    by (simp add: fetched_def itemsOf_def pages3_def upt_rec)
  have m: "map (cursorAt fst (\<lambda>r acc. snd r) pages3) [0..<2] = [Some ''a'', Some ''b'']"
    by (simp add: upt_rec c0 c1)
  show ?thesis
    using pagedAWSCall_concatenates_pages [OF h1 h2 h3, of "()"] by (simp only: f m)
qed

subsection \<open>Any action\<close>

text \<open>
  The same for an arbitrary action, whose answers may depend on the world and on the
  cursor it is given: \<open>pagedAWSCall\<close> returns a list of items exactly when the
  invocations form a finite trace that ends with the first falsy cursor, and the list is
  then the concatenation of the items of the responses of the trace, in order.
\<close>

lemma loop_body:
  "action w params tok = (Inr response, w') \<Longrightarrow>
   pagedAWSCall_loop action params accessor getNextToken acc tok w
   = (if truthy (cursorOf getNextToken response (acc @ itemsIn accessor response))
      then pagedAWSCall_loop action params accessor getNextToken (acc @ itemsIn accessor response)
             (cursorOf getNextToken response (acc @ itemsIn accessor response)) w'
      else Some (Inr (acc @ itemsIn accessor response), w'))"
  by (subst pagedAWSCall_loop.simps)
     (simp add: itemsIn_def cursorOf_def Let_def split: option.splits)

lemma loop_rejected:
  "action w params tok = (Inl err, w') \<Longrightarrow>
   pagedAWSCall_loop action params accessor getNextToken acc tok w = Some (Inl err, w')"
  by (subst pagedAWSCall_loop.simps) simp

lemma fetches_returns:
  "fetches action params accessor getNextToken acc tok w responses w' \<Longrightarrow>
   pagedAWSCall_loop action params accessor getNextToken acc tok w
   = Some (Inr (acc @ concat (map (itemsIn accessor) responses)), w')"
  by (induction rule: fetches.induct) (simp_all add: loop_body)



lemma returns_fetches_aux:
  "pagedAWSCall_loop action params accessor getNextToken acc tok w = Some y \<Longrightarrow>
   (case y of
      (Inl err, w') \<Rightarrow> True
    | (Inr result, w') \<Rightarrow>
        (\<exists>responses. fetches action params accessor getNextToken acc tok w responses w'
           \<and> result = acc @ concat (map (itemsIn accessor) responses)))"
proof (induction action params accessor getNextToken acc tok w y
        rule: pagedAWSCall_loop.raw_induct [rotated 1, consumes 1, case_names step])
  case (step loop action params accessor getNextToken result nextToken w y)
  obtain outcome w1 where a: "action w params nextToken = (outcome, w1)"
    by (cases "action w params nextToken")
  show ?case
  proof (cases outcome)
    case (Inl err)
    with a step.hyps show ?thesis by auto
  next
    case (Inr response)
    let ?acc = "result @ itemsIn accessor response"
    let ?tok = "cursorOf getNextToken response ?acc"
    have step: "(if truthy ?tok
                 then loop action params accessor getNextToken ?acc ?tok w1
                 else Some (Inr ?acc, w1)) = Some y"
      using step.hyps a Inr
      by (cases response)
         (auto simp add: itemsIn_def cursorOf_def Let_def split: option.splits if_splits)
    show ?thesis
    proof (cases "truthy ?tok")
      case False
      with step have y: "y = (Inr ?acc, w1)" by simp
      have "fetches action params accessor getNextToken result nextToken w [response] w1"
        using a Inr False by (intro fetches.last_page) simp_all
      with y show ?thesis by auto
    next
      case True
      with step have "loop action params accessor getNextToken ?acc ?tok w1 = Some y" by simp
      note ih = step.IH [OF this]
      show ?thesis
      proof (cases y)
        case (Pair res w')
        show ?thesis
        proof (cases res)
          case (Inl err)
          with Pair show ?thesis by simp
        next
          case (Inr r)
          with Pair ih obtain responses where
            f: "fetches action params accessor getNextToken ?acc ?tok w1 responses w'"
            and r: "r = ?acc @ concat (map (itemsIn accessor) responses)"
            by auto
          have "fetches action params accessor getNextToken result nextToken w
                  (response # responses) w'"
            using a \<open>outcome = Inr response\<close> True f by (intro fetches.next_page) simp_all
          with Pair Inr r show ?thesis by auto
        qed
      qed
    qed
  qed
qed

lemma returns_fetches:
  "pagedAWSCall_loop action params accessor getNextToken acc tok w = Some (Inr result, w') \<Longrightarrow>
   \<exists>responses. fetches action params accessor getNextToken acc tok w responses w'
      \<and> result = acc @ concat (map (itemsIn accessor) responses)"
  by (drule returns_fetches_aux) simp

lemma pagedAWSCall_fetches:
  "pagedAWSCall action params accessor getNextToken w = Some (Inr result, w')
   \<longleftrightarrow> (\<exists>responses. fetches action params accessor getNextToken [] None w responses w'
          \<and> result = concat (map (itemsIn accessor) responses))"
  unfolding pagedAWSCall_def
  using returns_fetches [of action params accessor getNextToken "[]" None w result w']
        fetches_returns [of action params accessor getNextToken "[]" None w _ w']
  by auto

lemma fetches_nonempty:
  "fetches action params accessor getNextToken acc tok w responses w' \<Longrightarrow> responses \<noteq> []"
  by (induction rule: fetches.induct) simp_all

lemma fetches_stops_exactly:
  "fetches action params accessor getNextToken acc tok w responses w' \<Longrightarrow>
   i < length responses \<Longrightarrow>
   truthy (cursorOf getNextToken (responses ! i)
             (acc @ concat (map (itemsIn accessor) (take (Suc i) responses))))
   \<longleftrightarrow> Suc i < length responses"
proof (induction arbitrary: i rule: fetches.induct)
  case (last_page w tok response w' acc)
  then show ?case by simp
next
  case (next_page w tok response w' acc responses w'')
  show ?case
  proof (cases i)
    case 0
    with next_page.hyps fetches_nonempty [OF next_page.hyps(3)] show ?thesis
      by (cases responses) simp_all
  next
    case (Suc j)
    with next_page.prems next_page.IH [of j] show ?thesis by simp
  qed
qed

section \<open>Single pages\<close>

lemma pagedAWSCall_single_page:
  assumes "action w params None = (Inr (Some r), w')"
    and "accessor r = Some items"
    and "\<not> truthy (getNextToken r items)"
  shows "pagedAWSCall action params accessor getNextToken w = Some (Inr items, w')"
  unfolding pagedAWSCall_def
  using assms by (subst pagedAWSCall_loop.simps) (simp add: Let_def)

lemma pagedAWSCall_rejected_first:
  assumes "action w params None = (Inl err, w')"
  shows "pagedAWSCall action params accessor getNextToken w = Some (Inl err, w')"
  unfolding pagedAWSCall_def
  using assms by (subst pagedAWSCall_loop.simps) simp

lemma getAllUsers_last_page:
  assumes "listUsers_reply b (h @ [ListUsersCall poolId pageToken]) = Inr page"
    and "\<not> truthy (PaginationToken page)"
  shows "getAllUsers b poolId acc includeCustomAttrs pageToken h
         = Some (Inr (acc @ Users page), h @ [ListUsersCall poolId pageToken])"
  using assms by (subst getAllUsers.simps) (simp add: cognito_listUsers_def remote_def)

lemma getAllUsers_rejected:
  assumes "listUsers_reply b (h @ [ListUsersCall poolId pageToken]) = Inl err"
    and "\<not> attributesDoNotExist err"
  shows "getAllUsers b poolId acc includeCustomAttrs pageToken h
         = Some (Inl err, h @ [ListUsersCall poolId pageToken])"
  using assms by (subst getAllUsers.simps) (simp add: cognito_listUsers_def remote_def)

section \<open>User enumeration\<close>

lemma attrError_class: "attributesDoNotExist attrError"
  by (simp add: attributesDoNotExist_def attrError_def startsWith_def)

lemma throttled_class: "\<not> attributesDoNotExist throttled"
  by (simp add: attributesDoNotExist_def throttled_def)

lemma backend4_first:
  "listUsers_reply backend4 [c1]
   = Inr \<lparr>Users = [mkUser ''u1'' ''CONFIRMED''], PaginationToken = Some ''t''\<rparr>"
  by (simp add: backend4_def)

lemma backend4_second: "listUsers_reply backend4 [c1, c2] = Inl attrError"
  by (simp add: backend4_def)

lemma backend4_third:
  "listUsers_reply backend4 [c1, c2, c3]
   = Inr \<lparr>Users = [mkUser ''u2'' ''CONFIRMED''], PaginationToken = None\<rparr>"
  by (simp add: backend4_def)

lemma getAllUsers_page_with_cursor:
  assumes "listUsers_reply b (h @ [ListUsersCall poolId pageToken]) = Inr page"
    and "truthy (PaginationToken page)"
  shows "getAllUsers b poolId acc includeCustomAttrs pageToken h
         = getAllUsers b poolId (acc @ Users page) includeCustomAttrs (PaginationToken page)
             (h @ [ListUsersCall poolId pageToken])"
  using assms by (subst getAllUsers.simps) (simp add: cognito_listUsers_def remote_def)

lemma getAllUsers_downgrade:
  assumes "listUsers_reply b (h @ [ListUsersCall poolId pageToken]) = Inl err"
    and "attributesDoNotExist err"
  shows "getAllUsers b poolId acc True pageToken h
         = getAllUsers b poolId acc False pageToken (h @ [ListUsersCall poolId pageToken])"
  using assms by (subst getAllUsers.simps) (simp add: cognito_listUsers_def remote_def)

lemma getAllUsers_propagates:
  assumes "listUsers_reply b (h @ [ListUsersCall poolId pageToken]) = Inl err"
    and "\<not> (includeCustomAttrs \<and> attributesDoNotExist err)"
  shows "getAllUsers b poolId acc includeCustomAttrs pageToken h
         = Some (Inl err, h @ [ListUsersCall poolId pageToken])"
  using assms by (subst getAllUsers.simps) (auto simp add: cognito_listUsers_def remote_def)

text \<open>An enumeration that returns has retried at most once, and not at all when it was
  entered with extended attributes disabled.\<close>

lemma getAllUsers_retried:
  "getAllUsers b poolId acc includeCustomAttrs pageToken h = Some y \<Longrightarrow>
   \<exists>cs. snd y = h @ cs \<and> cs \<noteq> []
        \<and> retried (listUsers_reply b) h cs \<le> (if includeCustomAttrs then 1 else 0)"
proof (induction b poolId acc includeCustomAttrs pageToken h y
        rule: getAllUsers.raw_induct [rotated 1, consumes 1, case_names step])
  case (step enumerate b poolId acc includeCustomAttrs pageToken h y)
  let ?c = "ListUsersCall poolId pageToken"
  have call: "cognito_listUsers b poolId pageToken h = (listUsers_reply b (h @ [?c]), h @ [?c])"
    by (simp add: cognito_listUsers_def remote_def)
  show ?case
  proof (cases "listUsers_reply b (h @ [?c])")
    case (Inr page)
    show ?thesis
    proof (cases "truthy (PaginationToken page)")
      case True
      with step.hyps call Inr
      have "enumerate b poolId (acc @ Users page) includeCustomAttrs (PaginationToken page)
              (h @ [?c]) = Some y"
        by simp
      from step.IH [OF this] obtain cs where
        cs: "snd y = (h @ [?c]) @ cs" "cs \<noteq> []"
          "retried (listUsers_reply b) (h @ [?c]) cs \<le> (if includeCustomAttrs then 1 else 0)"
        by blast
      have "snd y = h @ (?c # cs)" using cs(1) by simp
      moreover have "retried (listUsers_reply b) h (?c # cs)
                     \<le> (if includeCustomAttrs then 1 else 0)"
        using cs(3) Inr by (simp add: isRejection_def)
      ultimately show ?thesis by blast
    next
      case False
      with step.hyps call Inr have "y = (Inr (acc @ Users page), h @ [?c])" by simp
      then have "snd y = h @ [?c] \<and> [?c] \<noteq> []
                 \<and> retried (listUsers_reply b) h [?c] \<le> (if includeCustomAttrs then 1 else 0)"
        by simp
      then show ?thesis by blast
    qed
  next
    case (Inl err)
    show ?thesis
    proof (cases "includeCustomAttrs \<and> attributesDoNotExist err")
      case True
      with step.hyps call Inl
      have "enumerate b poolId acc False pageToken (h @ [?c]) = Some y"
        by simp
      from step.IH [OF this] obtain cs where
        cs: "snd y = (h @ [?c]) @ cs" "cs \<noteq> []"
          "retried (listUsers_reply b) (h @ [?c]) cs \<le> 0"
        by auto
      have "snd y = h @ (?c # cs)" using cs(1) by simp
      moreover have "retried (listUsers_reply b) h (?c # cs)
                     \<le> (if includeCustomAttrs then 1 else 0)"
        using cs(3) True by simp
      ultimately show ?thesis by blast
    next
      case False
      with step.hyps call Inl have "y = (Inl err, h @ [?c])" by auto
      then have "snd y = h @ [?c] \<and> [?c] \<noteq> []
                 \<and> retried (listUsers_reply b) h [?c] \<le> (if includeCustomAttrs then 1 else 0)"
        by simp
      then show ?thesis by blast
    qed
  qed
qed

lemma getAllUsers_backend4:
  "getAllUsers backend4 ''p'' [] True None []
     = Some (Inr [mkUser ''u1'' ''CONFIRMED'', mkUser ''u2'' ''CONFIRMED''],
             [ListUsersCall ''p'' None, ListUsersCall ''p'' (Some ''t''),
              ListUsersCall ''p'' (Some ''t'')])"
  apply (subst getAllUsers.simps)
  apply (simp add: cognito_listUsers_def remote_def backend4_first)
  apply (subst getAllUsers.simps)
  apply (simp add: cognito_listUsers_def remote_def backend4_second attrError_class)
  apply (subst getAllUsers.simps)
  apply (simp add: cognito_listUsers_def remote_def backend4_third)
  done

text \<open>
  Claim C4, as stated, fails: after a first page with a cursor, the attribute rejection of
  the second request makes \<open>getAllUsers\<close> repeat the second request, with the cursor of
  the first page and with the users of the first page still accumulated. An enumeration
  restarted from the beginning (\<open>getAllUsers_spec\<close>) would send a request without a
  cursor and return the users of the last answer only.
\<close>

theorem getAllUsers_keeps_partial_results:
  "getAllUsers backend4 ''p'' [] True None []
     = Some (Inr [mkUser ''u1'' ''CONFIRMED'', mkUser ''u2'' ''CONFIRMED''],
             [ListUsersCall ''p'' None, ListUsersCall ''p'' (Some ''t''),
              ListUsersCall ''p'' (Some ''t'')])
   \<and> getAllUsers_spec backend4 ''p'' [] True None []
     = Some (Inr [mkUser ''u2'' ''CONFIRMED''],
             [ListUsersCall ''p'' None, ListUsersCall ''p'' (Some ''t''),
              ListUsersCall ''p'' None])"
proof -
  have b: "getAllUsers_spec backend4 ''p'' [] True None []
     = Some (Inr [mkUser ''u2'' ''CONFIRMED''],
             [ListUsersCall ''p'' None, ListUsersCall ''p'' (Some ''t''),
              ListUsersCall ''p'' None])"
    apply (subst getAllUsers_spec.simps)
    apply (simp add: cognito_listUsers_def remote_def backend4_first)
    apply (subst getAllUsers_spec.simps)
    apply (simp add: cognito_listUsers_def remote_def backend4_second attrError_class)
    apply (subst getAllUsers_spec.simps)
    apply (simp add: cognito_listUsers_def remote_def backend4_third)
    done
  show ?thesis using getAllUsers_backend4 b by simp
qed

text \<open>
  Claim C4, amended. Every activation of \<open>getAllUsers\<close> sends one \<open>listUsers\<close> request.
  If the request is rejected with an error of the class \<open>InvalidParameterException\<close>,
  "attributes do not exist", and extended attributes were requested, \<open>getAllUsers\<close> goes
  on with extended attributes disabled, the same accumulated users and the same page
  token: it sends the same request once more; a last page answered to it is appended to
  the accumulated users, and a rejection of it, of any class, propagates. Every other
  rejection (another class, or extended attributes already disabled) propagates at once.
  After a page with a cursor the enumeration goes on with the users of the page appended
  and with the setting of extended attributes unchanged, so that it stays disabled once it
  is. Hence an enumeration that returns has sent at most one request after a rejected one,
  and none when it was entered with extended attributes disabled.
\<close>

theorem getAllUsers_retries_failed_page:
  "(listUsers_reply b (h @ [ListUsersCall poolId pageToken]) = Inl err \<longrightarrow>
    attributesDoNotExist err \<longrightarrow>
      getAllUsers b poolId acc True pageToken h
      = getAllUsers b poolId acc False pageToken (h @ [ListUsersCall poolId pageToken]))
   \<and> (listUsers_reply b (h @ [ListUsersCall poolId pageToken]) = Inl err \<longrightarrow>
       attributesDoNotExist err \<longrightarrow>
       listUsers_reply b (h @ [ListUsersCall poolId pageToken, ListUsersCall poolId pageToken])
         = Inr page \<longrightarrow> \<not> truthy (PaginationToken page) \<longrightarrow>
      getAllUsers b poolId acc True pageToken h
      = Some (Inr (acc @ Users page),
              h @ [ListUsersCall poolId pageToken, ListUsersCall poolId pageToken]))
   \<and> (listUsers_reply b (h @ [ListUsersCall poolId pageToken]) = Inl err \<longrightarrow>
       attributesDoNotExist err \<longrightarrow>
       listUsers_reply b (h @ [ListUsersCall poolId pageToken, ListUsersCall poolId pageToken])
         = Inl err' \<longrightarrow>
      getAllUsers b poolId acc True pageToken h
      = Some (Inl err', h @ [ListUsersCall poolId pageToken, ListUsersCall poolId pageToken]))
   \<and> (listUsers_reply b (h @ [ListUsersCall poolId pageToken]) = Inl err \<longrightarrow>
       \<not> (includeCustomAttrs \<and> attributesDoNotExist err) \<longrightarrow>
      getAllUsers b poolId acc includeCustomAttrs pageToken h
      = Some (Inl err, h @ [ListUsersCall poolId pageToken]))
   \<and> (listUsers_reply b (h @ [ListUsersCall poolId pageToken]) = Inr page \<longrightarrow>
       truthy (PaginationToken page) \<longrightarrow>
      getAllUsers b poolId acc includeCustomAttrs pageToken h
      = getAllUsers b poolId (acc @ Users page) includeCustomAttrs (PaginationToken page)
          (h @ [ListUsersCall poolId pageToken]))
   \<and> (listUsers_reply b (h @ [ListUsersCall poolId pageToken]) = Inr page \<longrightarrow>
       \<not> truthy (PaginationToken page) \<longrightarrow>
      getAllUsers b poolId acc includeCustomAttrs pageToken h
      = Some (Inr (acc @ Users page), h @ [ListUsersCall poolId pageToken]))
   \<and> (getAllUsers b poolId acc includeCustomAttrs pageToken h = Some (outcome, h') \<longrightarrow>
      (\<exists>cs. h' = h @ cs
         \<and> retried (listUsers_reply b) h cs \<le> (if includeCustomAttrs then 1 else 0)))"
proof -
  let ?c = "ListUsersCall poolId pageToken"
  have ok: "getAllUsers b poolId acc True pageToken h = Some (Inr (acc @ Users page), h @ [?c, ?c])"
    if "listUsers_reply b (h @ [?c]) = Inl err" and "attributesDoNotExist err"
      and "listUsers_reply b (h @ [?c, ?c]) = Inr page" and "\<not> truthy (PaginationToken page)"
    using that getAllUsers_last_page [of b "h @ [?c]" poolId pageToken page acc False]
    by (simp add: getAllUsers_downgrade)
  have again: "getAllUsers b poolId acc True pageToken h = Some (Inl err', h @ [?c, ?c])"
    if "listUsers_reply b (h @ [?c]) = Inl err" and "attributesDoNotExist err"
      and "listUsers_reply b (h @ [?c, ?c]) = Inl err'"
    using that getAllUsers_propagates [of b "h @ [?c]" poolId pageToken err' False acc]
    by (simp add: getAllUsers_downgrade)
  have bound: "\<exists>cs. h' = h @ cs
         \<and> retried (listUsers_reply b) h cs \<le> (if includeCustomAttrs then 1 else 0)"
    if "getAllUsers b poolId acc includeCustomAttrs pageToken h = Some (outcome, h')"
    using getAllUsers_retried [OF that] by auto
  show ?thesis
    using ok again bound
    by (intro conjI impI)
       (simp_all add: getAllUsers_downgrade getAllUsers_propagates getAllUsers_page_with_cursor
          getAllUsers_last_page)
qed

theorem getAllUsers_retries_failed_page_witness:
  "getAllUsers backend4 ''p'' [mkUser ''u1'' ''CONFIRMED''] True (Some ''t'') [ListUsersCall ''p'' None]
     = Some (Inr [mkUser ''u1'' ''CONFIRMED'', mkUser ''u2'' ''CONFIRMED''],
             [ListUsersCall ''p'' None, ListUsersCall ''p'' (Some ''t''),
              ListUsersCall ''p'' (Some ''t'')])
   \<and> getAllUsers backend4_again ''p'' [mkUser ''u1'' ''CONFIRMED''] True (Some ''t'')
       [ListUsersCall ''p'' None]
     = Some (Inl attrError,
             [ListUsersCall ''p'' None, ListUsersCall ''p'' (Some ''t''),
              ListUsersCall ''p'' (Some ''t'')])
   \<and> getAllUsers backend4_throttled ''p'' [] True None []
     = Some (Inl throttled, [ListUsersCall ''p'' None])
   \<and> getAllUsers backend4 ''p'' [] True None []
     = getAllUsers backend4 ''p'' [mkUser ''u1'' ''CONFIRMED''] True (Some ''t'')
         [ListUsersCall ''p'' None]
   \<and> getAllUsers backend4 ''p'' [mkUser ''u1'' ''CONFIRMED''] False (Some ''t'')
       [ListUsersCall ''p'' None, ListUsersCall ''p'' (Some ''t'')]
     = Some (Inr [mkUser ''u1'' ''CONFIRMED'', mkUser ''u2'' ''CONFIRMED''],
             [ListUsersCall ''p'' None, ListUsersCall ''p'' (Some ''t''),
              ListUsersCall ''p'' (Some ''t'')])
   \<and> retried (listUsers_reply backend4) []
       [ListUsersCall ''p'' None, ListUsersCall ''p'' (Some ''t''),
        ListUsersCall ''p'' (Some ''t'')] \<le> 1"
proof -
  note t = getAllUsers_retries_failed_page
  have h0: "listUsers_reply backend4 ([] @ [ListUsersCall ''p'' None])
            = Inr \<lparr>Users = [mkUser ''u1'' ''CONFIRMED''], PaginationToken = Some ''t''\<rparr>"
    by (simp add: backend4_first)
  have h1: "listUsers_reply backend4 ([ListUsersCall ''p'' None] @ [ListUsersCall ''p'' (Some ''t'')])
            = Inl attrError"
    by (simp add: backend4_second)
  have h2: "listUsers_reply backend4_again
              ([ListUsersCall ''p'' None] @ [ListUsersCall ''p'' (Some ''t'')]) = Inl attrError"
    by (simp add: backend4_again_def)
  have h3: "listUsers_reply backend4_throttled ([] @ [ListUsersCall ''p'' None]) = Inl throttled"
    by (simp add: backend4_throttled_def)
  have p1: "listUsers_reply backend4
              ([ListUsersCall ''p'' None] @ [ListUsersCall ''p'' (Some ''t''), ListUsersCall ''p'' (Some ''t'')])
            = Inr \<lparr>Users = [mkUser ''u2'' ''CONFIRMED''], PaginationToken = None\<rparr>"
    by (simp add: backend4_third)
  have p1': "listUsers_reply backend4
              ([ListUsersCall ''p'' None, ListUsersCall ''p'' (Some ''t'')] @ [ListUsersCall ''p'' (Some ''t'')])
            = Inr \<lparr>Users = [mkUser ''u2'' ''CONFIRMED''], PaginationToken = None\<rparr>"
    by (simp add: backend4_third)
  have p2: "listUsers_reply backend4_again
              ([ListUsersCall ''p'' None] @ [ListUsersCall ''p'' (Some ''t''), ListUsersCall ''p'' (Some ''t'')])
            = Inl attrError"
    by (simp add: backend4_again_def)
  have tr: "truthy (PaginationToken \<lparr>Users = [mkUser ''u1'' ''CONFIRMED''], PaginationToken = Some ''t''\<rparr>)"
    and fa: "\<not> truthy (PaginationToken \<lparr>Users = [mkUser ''u2'' ''CONFIRMED''], PaginationToken = None\<rparr>)"
    and th: "\<not> (True \<and> attributesDoNotExist throttled)"
    using throttled_class by simp_all
  have a: "getAllUsers backend4 ''p'' [mkUser ''u1'' ''CONFIRMED''] True (Some ''t'')
             [ListUsersCall ''p'' None]
           = Some (Inr ([mkUser ''u1'' ''CONFIRMED'']
                        @ Users \<lparr>Users = [mkUser ''u2'' ''CONFIRMED''], PaginationToken = None\<rparr>),
                   [ListUsersCall ''p'' None]
                   @ [ListUsersCall ''p'' (Some ''t''), ListUsersCall ''p'' (Some ''t'')])"
    using t [THEN conjunct2, THEN conjunct1, THEN mp, OF h1, THEN mp, OF attrError_class,
             THEN mp, OF p1, THEN mp, OF fa] .
  have b: "getAllUsers backend4_again ''p'' [mkUser ''u1'' ''CONFIRMED''] True (Some ''t'')
             [ListUsersCall ''p'' None]
           = Some (Inl attrError,
                   [ListUsersCall ''p'' None]
                   @ [ListUsersCall ''p'' (Some ''t''), ListUsersCall ''p'' (Some ''t'')])"
    using t [THEN conjunct2, THEN conjunct2, THEN conjunct1, THEN mp, OF h2,
             THEN mp, OF attrError_class, THEN mp, OF p2] .
  have c: "getAllUsers backend4_throttled ''p'' [] True None []
           = Some (Inl throttled, [] @ [ListUsersCall ''p'' None])"
    using t [THEN conjunct2, THEN conjunct2, THEN conjunct2, THEN conjunct1, THEN mp, OF h3,
             THEN mp, OF th] .
  have d: "getAllUsers backend4 ''p'' [] True None []
           = getAllUsers backend4 ''p''
               ([] @ Users \<lparr>Users = [mkUser ''u1'' ''CONFIRMED''], PaginationToken = Some ''t''\<rparr>)
               True
               (PaginationToken \<lparr>Users = [mkUser ''u1'' ''CONFIRMED''], PaginationToken = Some ''t''\<rparr>)
               ([] @ [ListUsersCall ''p'' None])"
    using t [THEN conjunct2, THEN conjunct2, THEN conjunct2, THEN conjunct2, THEN conjunct1,
             THEN mp, OF h0, THEN mp, OF tr] .
  have e: "getAllUsers backend4 ''p'' [mkUser ''u1'' ''CONFIRMED''] False (Some ''t'')
             [ListUsersCall ''p'' None, ListUsersCall ''p'' (Some ''t'')]
           = Some (Inr ([mkUser ''u1'' ''CONFIRMED'']
                        @ Users \<lparr>Users = [mkUser ''u2'' ''CONFIRMED''], PaginationToken = None\<rparr>),
                   [ListUsersCall ''p'' None, ListUsersCall ''p'' (Some ''t'')]
                   @ [ListUsersCall ''p'' (Some ''t'')])"
    using t [THEN conjunct2, THEN conjunct2, THEN conjunct2, THEN conjunct2, THEN conjunct2,
             THEN conjunct1, THEN mp, OF p1', THEN mp, OF fa] .
  have f: "\<exists>cs. [ListUsersCall ''p'' None, ListUsersCall ''p'' (Some ''t''),
                 ListUsersCall ''p'' (Some ''t'')] = [] @ cs
             \<and> retried (listUsers_reply backend4) [] cs \<le> (if True then 1 else 0)"
    using t [THEN conjunct2, THEN conjunct2, THEN conjunct2, THEN conjunct2, THEN conjunct2,
             THEN conjunct2, THEN mp, OF getAllUsers_backend4] .
  have f': "retried (listUsers_reply backend4) []
       [ListUsersCall ''p'' None, ListUsersCall ''p'' (Some ''t''),
        ListUsersCall ''p'' (Some ''t'')] \<le> 1"
    using f by auto
  have a': "getAllUsers backend4 ''p'' [mkUser ''u1'' ''CONFIRMED''] True (Some ''t'')
              [ListUsersCall ''p'' None]
     = Some (Inr [mkUser ''u1'' ''CONFIRMED'', mkUser ''u2'' ''CONFIRMED''],
             [ListUsersCall ''p'' None, ListUsersCall ''p'' (Some ''t''),
              ListUsersCall ''p'' (Some ''t'')])"
    using a by simp
  have b': "getAllUsers backend4_again ''p'' [mkUser ''u1'' ''CONFIRMED''] True (Some ''t'')
       [ListUsersCall ''p'' None]
     = Some (Inl attrError,
             [ListUsersCall ''p'' None, ListUsersCall ''p'' (Some ''t''),
              ListUsersCall ''p'' (Some ''t'')])"
    using b by simp
  have c': "getAllUsers backend4_throttled ''p'' [] True None []
     = Some (Inl throttled, [ListUsersCall ''p'' None])"
    using c by simp
  have d': "getAllUsers backend4 ''p'' [] True None []
     = getAllUsers backend4 ''p'' [mkUser ''u1'' ''CONFIRMED''] True (Some ''t'')
         [ListUsersCall ''p'' None]"
    using d by simp
  have e': "getAllUsers backend4 ''p'' [mkUser ''u1'' ''CONFIRMED''] False (Some ''t'')
       [ListUsersCall ''p'' None, ListUsersCall ''p'' (Some ''t'')]
     = Some (Inr [mkUser ''u1'' ''CONFIRMED'', mkUser ''u2'' ''CONFIRMED''],
             [ListUsersCall ''p'' None, ListUsersCall ''p'' (Some ''t''),
              ListUsersCall ''p'' (Some ''t'')])"
    using e by simp
  show ?thesis
    by (intro conjI a' b' c' d' e' f')
qed

section \<open>Classification of user pools\<close>

text \<open>
  Claim C1, as stated, fails on the reason strings: the reason of a pool without users is
  \<open>Is empty users\<close>, not \<open>empty users\<close>, and the reason of a pool whose users all have
  to change their password is \<open>Is all users force change password\<close>.
\<close>

theorem classifyUserPool_reason_strings:
  "reasonDelete (classifyUserPool poolA (Inr [])) \<noteq> Some ''empty users''
   \<and> reasonDelete (classifyUserPool poolA (Inr [mkUser ''u1'' ''FORCE_CHANGE_PASSWORD'']))
       \<noteq> Some ''all users force change password''"
  by (simp add: classifyUserPool_def mkUser_def)

text \<open>
  Claim C1, amended. When the enumeration of a pool's users succeeds: an empty list marks
  the pool with the reason \<open>Is empty users\<close>; a non-empty list whose users all have the
  status \<open>FORCE_CHANGE_PASSWORD\<close> marks it with the reason
  \<open>Is all users force change password\<close> (the list is stored in \<open>poolUsers\<close> in both
  cases); a list with a user of another status leaves the pool object as it was, so a pool
  that was not marked stays among the kept pools.
\<close>

theorem classifyUserPool_verdict:
  "classifyUserPool pool (Inr [])
     = pool\<lparr>isPrepareToDelete := Some True, reasonDelete := Some ''Is empty users'',
            poolUsers := Some []\<rparr>
   \<and> (users \<noteq> [] \<longrightarrow> (\<forall>u \<in> set users. UserStatus u = Some ''FORCE_CHANGE_PASSWORD'') \<longrightarrow>
        classifyUserPool pool (Inr users)
        = pool\<lparr>isPrepareToDelete := Some True, poolUsers := Some users,
               reasonDelete := Some ''Is all users force change password''\<rparr>)
   \<and> ((\<exists>u \<in> set users. UserStatus u \<noteq> Some ''FORCE_CHANGE_PASSWORD'') \<longrightarrow>
        classifyUserPool pool (Inr users) = pool)
   \<and> ((\<exists>u \<in> set users. UserStatus u \<noteq> Some ''FORCE_CHANGE_PASSWORD'') \<longrightarrow> \<not> marked pool \<longrightarrow>
        realPoolsOf [classifyUserPool pool (Inr users)] = [pool]
        \<and> deletePoolsOf [classifyUserPool pool (Inr users)] = [])"
proof -
  have empty: "classifyUserPool pool (Inr [])
     = pool\<lparr>isPrepareToDelete := Some True, reasonDelete := Some ''Is empty users'',
            poolUsers := Some []\<rparr>"
    by (simp add: classifyUserPool_def)
  have forced: "classifyUserPool pool (Inr users)
        = pool\<lparr>isPrepareToDelete := Some True, poolUsers := Some users,
               reasonDelete := Some ''Is all users force change password''\<rparr>"
    if "users \<noteq> []" and "\<forall>u \<in> set users. UserStatus u = Some ''FORCE_CHANGE_PASSWORD''"
    using that by (simp add: classifyUserPool_def list_all_iff)
  have other: "classifyUserPool pool (Inr users) = pool"
    if "\<exists>u \<in> set users. UserStatus u \<noteq> Some ''FORCE_CHANGE_PASSWORD''"
  proof -
    from that have "users \<noteq> []" by auto
    moreover from that
    have "\<not> list_all (\<lambda>poolUser. UserStatus poolUser = Some ''FORCE_CHANGE_PASSWORD'') users"
      by (auto simp add: list_all_iff)
    ultimately show ?thesis by (simp add: classifyUserPool_def)
  qed
  show ?thesis
    using empty forced other by (simp add: realPoolsOf_def deletePoolsOf_def)
qed

theorem classifyUserPool_verdict_witness:
  "classifyUserPool poolA (Inr []) = poolA_marked
   \<and> classifyUserPool poolA (Inr [mkUser ''u1'' ''FORCE_CHANGE_PASSWORD''])
     = poolA\<lparr>isPrepareToDelete := Some True,
             poolUsers := Some [mkUser ''u1'' ''FORCE_CHANGE_PASSWORD''],
             reasonDelete := Some ''Is all users force change password''\<rparr>
   \<and> classifyUserPool poolA
       (Inr [mkUser ''u1'' ''FORCE_CHANGE_PASSWORD'', mkUser ''u2'' ''CONFIRMED'']) = poolA
   \<and> realPoolsOf [classifyUserPool poolA
       (Inr [mkUser ''u1'' ''FORCE_CHANGE_PASSWORD'', mkUser ''u2'' ''CONFIRMED''])] = [poolA]"
proof -
  have h1: "[mkUser ''u1'' ''FORCE_CHANGE_PASSWORD''] \<noteq> []" by simp
  have h2: "\<forall>u \<in> set [mkUser ''u1'' ''FORCE_CHANGE_PASSWORD''].
              UserStatus u = Some ''FORCE_CHANGE_PASSWORD''"
    by (simp add: mkUser_def)
  have h3: "\<exists>u \<in> set [mkUser ''u1'' ''FORCE_CHANGE_PASSWORD'', mkUser ''u2'' ''CONFIRMED''].
              UserStatus u \<noteq> Some ''FORCE_CHANGE_PASSWORD''"
    by (simp add: mkUser_def)
  have h4: "\<not> marked poolA" by (simp add: marked_def poolA_def)
  note t = classifyUserPool_verdict [where pool = poolA]
  have a: "classifyUserPool poolA (Inr []) = poolA_marked"
    using t [THEN conjunct1] by (simp add: poolA_marked_def)
  have b: "classifyUserPool poolA (Inr [mkUser ''u1'' ''FORCE_CHANGE_PASSWORD''])
     = poolA\<lparr>isPrepareToDelete := Some True,
             poolUsers := Some [mkUser ''u1'' ''FORCE_CHANGE_PASSWORD''],
             reasonDelete := Some ''Is all users force change password''\<rparr>"
    using t [THEN conjunct2, THEN conjunct1, THEN mp, OF h1, THEN mp, OF h2] .
  have c: "classifyUserPool poolA
       (Inr [mkUser ''u1'' ''FORCE_CHANGE_PASSWORD'', mkUser ''u2'' ''CONFIRMED'']) = poolA"
    using t [THEN conjunct2, THEN conjunct2, THEN conjunct1, THEN mp, OF h3] .
  have d: "realPoolsOf [classifyUserPool poolA
       (Inr [mkUser ''u1'' ''FORCE_CHANGE_PASSWORD'', mkUser ''u2'' ''CONFIRMED''])] = [poolA]"
    using t [THEN conjunct2, THEN conjunct2, THEN conjunct2, THEN mp, OF h3, THEN mp, OF h4]
    by simp
  show ?thesis using a b c d by simp
qed

section \<open>Classification of identity pools\<close>

text \<open>A provider name finds a retained pool exactly when it has the Cognito prefix and
  ends with \<open>/\<close> and the id of a retained pool.\<close>

lemma findUserPoolByProviderName_empty_iff:
  "findUserPoolByProviderName realPools (Some n) = []
   \<longleftrightarrow> \<not> (startsWith n ''cognito-idp''
            \<and> (\<exists>pool \<in> set realPools. endsWith n (''/'' @ PoolId pool)))"
  by (auto simp add: findUserPoolByProviderName_def Let_def filter_empty_conv)


text \<open>A sole provider without the Cognito prefix marks the identity pool as well, whatever
  its suffix.\<close>

lemma classifyIdentityPool_not_cognito_prefixed:
  assumes "CognitoIdentityProviders r = Some [p]" and "ProviderName p = Some n"
    and "\<not> startsWith n ''cognito-idp''"
  shows "classifyIdentityPool realPools identityPool (Some r)
         = Inr (identityPool\<lparr>isPrepareToDelete := Some True,
                  reasonDelete := Some (''ProviderName '' @ n @ '' not match any user pool'')\<rparr>)"
  using assms
  by (simp add: classifyIdentityPool_def findUserPoolByProviderName_empty_iff showName_def)







section \<open>Inventory caches\<close>

text \<open>
  Claim C9, as stated, fails when the first listing returns no pool: the cached array is
  still empty, and the second call of \<open>listUserPools\<close> issues the remote listing again.
\<close>

theorem listUserPools_lists_again_when_empty:
  "listUserPools backend9 freshRun
     = Some (Inr [], freshRun\<lparr>history := [ListUserPoolsCall 60 None]\<rparr>)
   \<and> listUserPools backend9 (freshRun\<lparr>history := [ListUserPoolsCall 60 None]\<rparr>)
     = Some (Inr [], freshRun\<lparr>history := [ListUserPoolsCall 60 None, ListUserPoolsCall 60 None]\<rparr>)"
proof -
  have p: "\<And>h. pagedAWSCall (cognito_listUserPools backend9) 60 UserPools
             (\<lambda>response result. UserPools_NextToken response) h
           = Some (Inr [], h @ [ListUserPoolsCall 60 None])"
    by (rule pagedAWSCall_single_page [where r = "\<lparr>UserPools = Some [], UserPools_NextToken = None\<rparr>"])
       (simp_all add: cognito_listUserPools_def remote_def backend9_def)
  show ?thesis
    by (simp add: listUserPools_def p freshRun_def)
qed

text \<open>
  Claim C9, amended. A call of \<open>listUserPools\<close> or \<open>listIdentityPools\<close> that finds its
  cached array non-empty returns that array and leaves the state as it is, history of
  remote calls included. A call that finds it empty runs the paginated listing and stores
  what it returns; so when the first listing returns at least one pool, every later call
  returns the stored pools without a remote call, and when it returns none (or fails),
  the next call lists again: a listing that fails is the outcome of the call, and the
  cached array is still empty.
\<close>

theorem inventory_cache_lists_once_when_nonempty:
  "(cachedUserPoolIds st \<noteq> [] \<longrightarrow> listUserPools b st = Some (Inr (cachedUserPoolIds st), st))
   \<and> (cachedIdentityPoolIds st \<noteq> [] \<longrightarrow>
        listIdentityPools b st = Some (Inr (cachedIdentityPoolIds st), st))
   \<and> (cachedUserPoolIds st = [] \<longrightarrow>
        pagedAWSCall (cognito_listUserPools b) 60 UserPools
          (\<lambda>response result. UserPools_NextToken response) (history st) = Some (Inr pools, h') \<longrightarrow>
        listUserPools b st = Some (Inr pools, st\<lparr>history := h', cachedUserPoolIds := pools\<rparr>)
        \<and> (pools \<noteq> [] \<longrightarrow>
             listUserPools b (st\<lparr>history := h', cachedUserPoolIds := pools\<rparr>)
             = Some (Inr pools, st\<lparr>history := h', cachedUserPoolIds := pools\<rparr>)))
   \<and> (cachedIdentityPoolIds st = [] \<longrightarrow>
        pagedAWSCall (cognitoIdentity_listIdentityPools b) 60 IdentityPools
          (\<lambda>response result. IdentityPools_NextToken response) (history st)
          = Some (Inr identityPools, h') \<longrightarrow>
        listIdentityPools b st
        = Some (Inr identityPools, st\<lparr>history := h', cachedIdentityPoolIds := identityPools\<rparr>)
        \<and> (identityPools \<noteq> [] \<longrightarrow>
             listIdentityPools b (st\<lparr>history := h', cachedIdentityPoolIds := identityPools\<rparr>)
             = Some (Inr identityPools,
                     st\<lparr>history := h', cachedIdentityPoolIds := identityPools\<rparr>)))
   \<and> (cachedUserPoolIds st = [] \<longrightarrow>
        pagedAWSCall (cognito_listUserPools b) 60 UserPools
          (\<lambda>response result. UserPools_NextToken response) (history st) = Some (Inl err, h') \<longrightarrow>
        listUserPools b st = Some (Inl err, st\<lparr>history := h'\<rparr>)
        \<and> cachedUserPoolIds (st\<lparr>history := h'\<rparr>) = [])
   \<and> (cachedIdentityPoolIds st = [] \<longrightarrow>
        pagedAWSCall (cognitoIdentity_listIdentityPools b) 60 IdentityPools
          (\<lambda>response result. IdentityPools_NextToken response) (history st)
          = Some (Inl err, h') \<longrightarrow>
        listIdentityPools b st = Some (Inl err, st\<lparr>history := h'\<rparr>)
        \<and> cachedIdentityPoolIds (st\<lparr>history := h'\<rparr>) = [])"
  by (simp add: listUserPools_def listIdentityPools_def)

theorem inventory_cache_lists_once_when_nonempty_witness:
  "listUserPools backend9_pools freshRun
     = Some (Inr [poolA], freshRun\<lparr>history := [ListUserPoolsCall 60 None],
                                   cachedUserPoolIds := [poolA]\<rparr>)
   \<and> listUserPools backend9_pools
       (freshRun\<lparr>history := [ListUserPoolsCall 60 None], cachedUserPoolIds := [poolA]\<rparr>)
     = Some (Inr [poolA], freshRun\<lparr>history := [ListUserPoolsCall 60 None],
                                   cachedUserPoolIds := [poolA]\<rparr>)
   \<and> listIdentityPools backend9_pools freshRun
     = Some (Inr [identityPoolX], freshRun\<lparr>history := [ListIdentityPoolsCall 60 None],
                                           cachedIdentityPoolIds := [identityPoolX]\<rparr>)
   \<and> listIdentityPools backend9_pools
       (freshRun\<lparr>history := [ListIdentityPoolsCall 60 None],
                 cachedIdentityPoolIds := [identityPoolX]\<rparr>)
     = Some (Inr [identityPoolX], freshRun\<lparr>history := [ListIdentityPoolsCall 60 None],
                                           cachedIdentityPoolIds := [identityPoolX]\<rparr>)
   \<and> listUserPools silent freshRun
     = Some (Inl notScripted, freshRun\<lparr>history := [ListUserPoolsCall 60 None]\<rparr>)
   \<and> cachedUserPoolIds (freshRun\<lparr>history := [ListUserPoolsCall 60 None]\<rparr>) = []
   \<and> listIdentityPools silent freshRun
     = Some (Inl notScripted, freshRun\<lparr>history := [ListIdentityPoolsCall 60 None]\<rparr>)
   \<and> cachedIdentityPoolIds (freshRun\<lparr>history := [ListIdentityPoolsCall 60 None]\<rparr>) = []"
proof -
  have e1: "cachedUserPoolIds freshRun = []" and e2: "cachedIdentityPoolIds freshRun = []"
    by (simp_all add: freshRun_def)
  have p1: "pagedAWSCall (cognito_listUserPools backend9_pools) 60 UserPools
              (\<lambda>response result. UserPools_NextToken response) (history freshRun)
            = Some (Inr [poolA], [ListUserPoolsCall 60 None])"
    by (rule pagedAWSCall_single_page
          [where r = "\<lparr>UserPools = Some [poolA], UserPools_NextToken = None\<rparr>"])
       (simp_all add: cognito_listUserPools_def remote_def backend9_pools_def freshRun_def)
  have p2: "pagedAWSCall (cognitoIdentity_listIdentityPools backend9_pools) 60 IdentityPools
              (\<lambda>response result. IdentityPools_NextToken response) (history freshRun)
            = Some (Inr [identityPoolX], [ListIdentityPoolsCall 60 None])"
    by (rule pagedAWSCall_single_page
          [where r = "\<lparr>IdentityPools = Some [identityPoolX], IdentityPools_NextToken = None\<rparr>"])
       (simp_all add: cognitoIdentity_listIdentityPools_def remote_def backend9_pools_def
          freshRun_def)
  have q1: "pagedAWSCall (cognito_listUserPools silent) 60 UserPools
              (\<lambda>response result. UserPools_NextToken response) (history freshRun)
            = Some (Inl notScripted, [ListUserPoolsCall 60 None])"
    by (rule pagedAWSCall_rejected_first)
       (simp add: cognito_listUserPools_def remote_def silent_def freshRun_def)
  have q2: "pagedAWSCall (cognitoIdentity_listIdentityPools silent) 60 IdentityPools
              (\<lambda>response result. IdentityPools_NextToken response) (history freshRun)
            = Some (Inl notScripted, [ListIdentityPoolsCall 60 None])"
    by (rule pagedAWSCall_rejected_first)
       (simp add: cognitoIdentity_listIdentityPools_def remote_def silent_def freshRun_def)
  have n1: "[poolA] \<noteq> []" and n2: "[identityPoolX] \<noteq> []"
    by simp_all
  note t = inventory_cache_lists_once_when_nonempty [where st = freshRun and b = backend9_pools]
  note s = inventory_cache_lists_once_when_nonempty [where st = freshRun and b = silent]
  note u = t [THEN conjunct2, THEN conjunct2, THEN conjunct1, THEN mp, OF e1, THEN mp, OF p1]
  note i = t [THEN conjunct2, THEN conjunct2, THEN conjunct2, THEN conjunct1,
              THEN mp, OF e2, THEN mp, OF p2]
  note v = s [THEN conjunct2, THEN conjunct2, THEN conjunct2, THEN conjunct2, THEN conjunct1,
              THEN mp, OF e1, THEN mp, OF q1]
  note j = s [THEN conjunct2, THEN conjunct2, THEN conjunct2, THEN conjunct2, THEN conjunct2,
              THEN mp, OF e2, THEN mp, OF q2]
  show ?thesis
    using u [THEN conjunct1] u [THEN conjunct2, THEN mp, OF n1]
          i [THEN conjunct1] i [THEN conjunct2, THEN mp, OF n2]
          v [THEN conjunct1] v [THEN conjunct2] j [THEN conjunct1] j [THEN conjunct2]
    by (simp only: simp_thms)
qed

section \<open>Retirement\<close>

text \<open>
  The deletion loop of \<open>index.ts\<close>: when the description of a pool has a non-empty
  domain, the calls for that pool are the describe call, then the domain deletion, then
  (only if the domain deletion succeeds) the pool deletion.
\<close>

lemma deleteUserPools_domain_first:
  assumes "describeUserPool_reply b (h @ [DescribeUserPoolCall (PoolId p)]) = Inr deleteUP"
    and "UserPool deleteUP = Some up" and "UserPoolDomain up = Some d" and "d \<noteq> []"
  shows "deleteUserPools b (p # rest) h =
     (let h2 = h @ [DescribeUserPoolCall (PoolId p), DeleteUserPoolDomainCall (PoolId p) d];
          h3 = h2 @ [DeleteUserPoolCall (PoolId p)]
      in case delete_reply b h2 of
           Inl err \<Rightarrow> (Inl err, h2)
         | Inr u \<Rightarrow> (case delete_reply b h3 of
                       Inl err \<Rightarrow> (Inl err, h3)
                     | Inr u' \<Rightarrow> deleteUserPools b rest h3))"
  using assms
  by (simp add: cognito_describeUserPool_def cognito_deleteUserPoolDomain_def
        cognito_deleteUserPool_def remote_def Let_def split: sum.splits)

lemma deleteUserPools_without_domain:
  assumes "describeUserPool_reply b (h @ [DescribeUserPoolCall (PoolId p)]) = Inr deleteUP"
    and "\<not> truthy (case UserPool deleteUP of None \<Rightarrow> None | Some up \<Rightarrow> UserPoolDomain up)"
  shows "deleteUserPools b (p # rest) h =
     (let h3 = h @ [DescribeUserPoolCall (PoolId p), DeleteUserPoolCall (PoolId p)]
      in case delete_reply b h3 of
           Inl err \<Rightarrow> (Inl err, h3)
         | Inr u' \<Rightarrow> deleteUserPools b rest h3)"
  using assms
  by (auto simp add: cognito_describeUserPool_def cognito_deleteUserPoolDomain_def
        cognito_deleteUserPool_def remote_def Let_def split: sum.splits option.splits)

text \<open>
  Claim C5 holds for \<open>index.ts\<close> and fails for the second entry point. On an account
  whose only user pool has no users and has the domain \<open>auth-a\<close>, \<open>main\<close> of
  \<open>index.ts\<close> describes the pool, deletes the domain and then deletes the pool, whereas
  \<open>main\<close> of the second entry point deletes the pool without a describe call and without
  a domain deletion.
\<close>

theorem main_second_skips_domain_deletion:
  "map_option (\<lambda>(outcome, st). history st) (main_index backend5 freshRun)
     = Some [ListUserPoolsCall 60 None, ListUsersCall ''eu-central-1_A'' None,
             ListIdentityPoolsCall 60 None, DescribeUserPoolCall ''eu-central-1_A'',
             DeleteUserPoolDomainCall ''eu-central-1_A'' ''auth-a'',
             DeleteUserPoolCall ''eu-central-1_A'']
   \<and> map_option (\<lambda>(outcome, st). history st) (main_second backend5 freshRun)
     = Some [ListUserPoolsCall 60 None, ListUsersCall ''eu-central-1_A'' None,
             ListIdentityPoolsCall 60 None, DeleteUserPoolCall ''eu-central-1_A'']"
proof -
  have p1: "\<And>h. pagedAWSCall (cognito_listUserPools backend5) 60 UserPools
              (\<lambda>response result. UserPools_NextToken response) h
            = Some (Inr [poolA], h @ [ListUserPoolsCall 60 None])"
    by (rule pagedAWSCall_single_page
          [where r = "\<lparr>UserPools = Some [poolA], UserPools_NextToken = None\<rparr>"])
       (simp_all add: cognito_listUserPools_def remote_def backend5_def)
  have p2: "\<And>h. pagedAWSCall (cognitoIdentity_listIdentityPools backend5) 60 IdentityPools
              (\<lambda>response result. IdentityPools_NextToken response) h
            = Some (Inr [], h @ [ListIdentityPoolsCall 60 None])"
    by (rule pagedAWSCall_single_page
          [where r = "\<lparr>IdentityPools = Some [], IdentityPools_NextToken = None\<rparr>"])
       (simp_all add: cognitoIdentity_listIdentityPools_def remote_def backend5_def)
  have u: "\<And>h poolId. getAllUsers backend5 poolId [] True None h
            = Some (Inr [], h @ [ListUsersCall poolId None])"
    using getAllUsers_last_page [where b = backend5 and acc = "[]"
            and page = "\<lparr>Users = [], PaginationToken = None\<rparr>"]
    by (simp add: backend5_def)
  have l1: "\<And>st. cachedUserPoolIds st = [] \<Longrightarrow> listUserPools backend5 st
            = Some (Inr [poolA], st\<lparr>history := history st @ [ListUserPoolsCall 60 None],
                                    cachedUserPoolIds := [poolA]\<rparr>)"
    by (simp add: listUserPools_def p1)
  have c1: "\<And>h. classifyUserPools backend5 [poolA] h
            = Some ([poolA_marked], h @ [ListUsersCall ''eu-central-1_A'' None])"
    by (simp add: u classifyUserPool_def poolA_marked_def) (simp add: poolA_def)
  have m: "deletePoolsOf [poolA_marked] = [poolA_marked]" "realPoolsOf [poolA_marked] = []"
    by (simp_all add: deletePoolsOf_def realPoolsOf_def marked_def poolA_marked_def)
  have l2: "\<And>st. cachedIdentityPoolIds st = [] \<Longrightarrow> listIdentityPools backend5 st
            = Some (Inr [], st\<lparr>history := history st @ [ListIdentityPoolsCall 60 None],
                              cachedIdentityPoolIds := []\<rparr>)"
    by (simp add: listIdentityPools_def p2)
  have d1: "\<And>h. deleteUserPools backend5 [poolA_marked] h
            = (Inr (), h @ [DescribeUserPoolCall ''eu-central-1_A'',
                            DeleteUserPoolDomainCall ''eu-central-1_A'' ''auth-a'',
                            DeleteUserPoolCall ''eu-central-1_A''])"
    by (simp add: cognito_describeUserPool_def cognito_deleteUserPoolDomain_def
          cognito_deleteUserPool_def remote_def backend5_def poolA_marked_def poolA_def)
  have d2: "\<And>h. deleteUserPools_direct backend5 [poolA_marked] h
            = (Inr (), h @ [DeleteUserPoolCall ''eu-central-1_A''])"
    by (simp add: cognito_deleteUserPool_def remote_def backend5_def poolA_marked_def poolA_def)
  have e: "cachedUserPoolIds freshRun = []" "cachedIdentityPoolIds freshRun = []"
    "history freshRun = []"
    by (simp_all add: freshRun_def)
  show ?thesis
    by (simp add: main_index_def main_second_def main_def l1 c1 m l2 d1 d2 e Let_def
          del: classifyUserPools.simps deleteUserPools.simps deleteUserPools_direct.simps)
       (simp add: deletePoolsOf_def)
qed

section \<open>Failures inside a loop\<close>

lemma classifyUserPools_append:
  "classifyUserPools b (before @ after) h =
     (case classifyUserPools b before h of
        None \<Rightarrow> None
      | Some (before', h1) \<Rightarrow>
          (case classifyUserPools b after h1 of
             None \<Rightarrow> None
           | Some (after', h2) \<Rightarrow> Some (before' @ after', h2)))"
  by (induction before arbitrary: h) (auto split: option.splits)

lemma classifyUserPools_length:
  "classifyUserPools b pools h = Some (pools', h') \<Longrightarrow> length pools' = length pools"
  by (induction pools arbitrary: h pools' h') (auto split: option.splits)

lemma classifyIdentityPools_append:
  "classifyIdentityPools b realPools (before @ after) h =
     (case classifyIdentityPools b realPools before h of
        (Inl err, before', h1) \<Rightarrow> (Inl err, before' @ after, h1)
      | (Inr u, before', h1) \<Rightarrow>
          (case classifyIdentityPools b realPools after h1 of
             (outcome, after', h2) \<Rightarrow> (outcome, before' @ after', h2)))"
  by (induction before arbitrary: h) (auto split: prod.splits sum.splits)

lemma deleteUserPools_append:
  "deleteUserPools b (before @ after) h =
     (case deleteUserPools b before h of
        (Inl err, h1) \<Rightarrow> (Inl err, h1)
      | (Inr u, h1) \<Rightarrow> deleteUserPools b after h1)"
  by (induction before arbitrary: h)
     (auto simp add: Let_def split: prod.splits sum.splits option.splits)

lemma deleteUserPools_direct_append:
  "deleteUserPools_direct b (before @ after) h =
     (case deleteUserPools_direct b before h of
        (Inl err, h1) \<Rightarrow> (Inl err, h1)
      | (Inr u, h1) \<Rightarrow> deleteUserPools_direct b after h1)"
  by (induction before arbitrary: h) (auto split: prod.splits sum.splits)

lemma deleteIdentityPools_append:
  "deleteIdentityPools b (before @ after) h =
     (case deleteIdentityPools b before h of
        (Inl err, h1) \<Rightarrow> (Inl err, h1)
      | (Inr u, h1) \<Rightarrow> deleteIdentityPools b after h1)"
  by (induction before arbitrary: h) (auto split: prod.splits sum.splits)

text \<open>The four ways in which the body of the deletion loop of \<open>index.ts\<close> ends with a
  rejection.\<close>

lemma deleteUserPools_describe_rejected:
  assumes "describeUserPool_reply b (h @ [DescribeUserPoolCall (PoolId p)]) = Inl err"
  shows "deleteUserPools b (p # rest) h = (Inl err, h @ [DescribeUserPoolCall (PoolId p)])"
  using assms by (simp add: cognito_describeUserPool_def remote_def)

lemma deleteUserPools_domain_rejected:
  assumes "describeUserPool_reply b (h @ [DescribeUserPoolCall (PoolId p)]) = Inr deleteUP"
    and "UserPool deleteUP = Some up" and "UserPoolDomain up = Some d" and "d \<noteq> []"
    and "delete_reply b (h @ [DescribeUserPoolCall (PoolId p),
                              DeleteUserPoolDomainCall (PoolId p) d]) = Inl err"
  shows "deleteUserPools b (p # rest) h
         = (Inl err, h @ [DescribeUserPoolCall (PoolId p), DeleteUserPoolDomainCall (PoolId p) d])"
  using assms by (simp add: deleteUserPools_domain_first Let_def del: deleteUserPools.simps)

lemma deleteUserPools_pool_rejected:
  assumes "describeUserPool_reply b (h @ [DescribeUserPoolCall (PoolId p)]) = Inr deleteUP"
    and "UserPool deleteUP = Some up" and "UserPoolDomain up = Some d" and "d \<noteq> []"
    and "delete_reply b (h @ [DescribeUserPoolCall (PoolId p),
                              DeleteUserPoolDomainCall (PoolId p) d]) = Inr u"
    and "delete_reply b (h @ [DescribeUserPoolCall (PoolId p),
                              DeleteUserPoolDomainCall (PoolId p) d,
                              DeleteUserPoolCall (PoolId p)]) = Inl err"
  shows "deleteUserPools b (p # rest) h
         = (Inl err, h @ [DescribeUserPoolCall (PoolId p), DeleteUserPoolDomainCall (PoolId p) d,
                          DeleteUserPoolCall (PoolId p)])"
  using assms by (simp add: deleteUserPools_domain_first Let_def del: deleteUserPools.simps)

lemma deleteUserPools_bare_pool_rejected:
  assumes "describeUserPool_reply b (h @ [DescribeUserPoolCall (PoolId p)]) = Inr deleteUP"
    and "\<not> truthy (case UserPool deleteUP of None \<Rightarrow> None | Some up \<Rightarrow> UserPoolDomain up)"
    and "delete_reply b (h @ [DescribeUserPoolCall (PoolId p), DeleteUserPoolCall (PoolId p)])
         = Inl err"
  shows "deleteUserPools b (p # rest) h
         = (Inl err, h @ [DescribeUserPoolCall (PoolId p), DeleteUserPoolCall (PoolId p)])"
  using assms by (simp add: deleteUserPools_without_domain Let_def del: deleteUserPools.simps)

text \<open>Listings of one page, and the classification of a pool without users.\<close>

lemma listUserPools_one_page:
  assumes "cachedUserPoolIds st = []"
    and "listUserPools_reply b (history st @ [ListUserPoolsCall 60 None])
         = Inr (Some \<lparr>UserPools = Some pools, UserPools_NextToken = None\<rparr>)"
  shows "listUserPools b st
         = Some (Inr pools, st\<lparr>history := history st @ [ListUserPoolsCall 60 None],
                               cachedUserPoolIds := pools\<rparr>)"
proof -
  have "pagedAWSCall (cognito_listUserPools b) 60 UserPools
          (\<lambda>response result. UserPools_NextToken response) (history st)
        = Some (Inr pools, history st @ [ListUserPoolsCall 60 None])"
    by (rule pagedAWSCall_single_page
          [where r = "\<lparr>UserPools = Some pools, UserPools_NextToken = None\<rparr>"])
       (simp_all add: cognito_listUserPools_def remote_def assms)
  then show ?thesis using assms(1) by (simp add: listUserPools_def)
qed

lemma listIdentityPools_one_page:
  assumes "cachedIdentityPoolIds st = []"
    and "listIdentityPools_reply b (history st @ [ListIdentityPoolsCall 60 None])
         = Inr (Some \<lparr>IdentityPools = Some pools, IdentityPools_NextToken = None\<rparr>)"
  shows "listIdentityPools b st
         = Some (Inr pools, st\<lparr>history := history st @ [ListIdentityPoolsCall 60 None],
                               cachedIdentityPoolIds := pools\<rparr>)"
proof -
  have "pagedAWSCall (cognitoIdentity_listIdentityPools b) 60 IdentityPools
          (\<lambda>response result. IdentityPools_NextToken response) (history st)
        = Some (Inr pools, history st @ [ListIdentityPoolsCall 60 None])"
    by (rule pagedAWSCall_single_page
          [where r = "\<lparr>IdentityPools = Some pools, IdentityPools_NextToken = None\<rparr>"])
       (simp_all add: cognitoIdentity_listIdentityPools_def remote_def assms)
  then show ?thesis using assms(1) by (simp add: listIdentityPools_def)
qed

lemma classifyUserPools_poolA_empty:
  assumes "listUsers_reply b (h @ [ListUsersCall ''eu-central-1_A'' None])
           = Inr \<lparr>Users = [], PaginationToken = None\<rparr>"
  shows "classifyUserPools b [poolA] h
         = Some ([poolA_marked], h @ [ListUsersCall ''eu-central-1_A'' None])"
proof -
  have "getAllUsers b ''eu-central-1_A'' [] True None h
        = Some (Inr [], h @ [ListUsersCall ''eu-central-1_A'' None])"
    using getAllUsers_last_page [where b = b and acc = "[]" and poolId = "''eu-central-1_A''"
            and page = "\<lparr>Users = [], PaginationToken = None\<rparr>" and h = h and pageToken = None]
      assms
    by simp
  then show ?thesis
    by (simp add: classifyUserPool_def poolA_marked_def poolA_def)
qed

text \<open>
  Claim C6, as stated, fails outside the user-pool classification loop: with a throttled
  describe or delete call for the first item, the identity-pool classification loop and
  each deletion loop (user pools in \<open>index.ts\<close>, user pools in the second entry
  point, identity pools) issue that one call and end with its rejection; no call is issued
  for the second item.
\<close>

theorem loop_stops_at_first_failure:
  "classifyIdentityPools backend6 [] [identityPoolX, identityPoolY] []
     = (Inl throttled, [identityPoolX, identityPoolY], [DescribeIdentityPoolCall ''eu-central-1:x''])
   \<and> deleteUserPools backend6 [poolA_marked, poolB] []
     = (Inl throttled, [DescribeUserPoolCall ''eu-central-1_A''])
   \<and> deleteUserPools_direct backend6 [poolA_marked, poolB] []
     = (Inl throttled, [DeleteUserPoolCall ''eu-central-1_A''])
   \<and> deleteIdentityPools backend6 [identityPoolX, identityPoolY] []
     = (Inl throttled, [DeleteIdentityPoolCall ''eu-central-1:x''])"
  by (simp add: describeIdentityPool_def cognito_describeUserPool_def cognito_deleteUserPool_def
        cognitoIdentity_deleteIdentityPool_def remote_def backend6_def silent_def
        identityPoolX_def poolA_marked_def poolA_def)

text \<open>
  Claim C6, amended. In the user-pool classification loop a failure of the enumeration of
  one pool's users leaves that pool as it was and does not touch its siblings: the pools
  before it and the pools after it are classified exactly as the loop classifies them on
  their own. The three other kinds of loop have no error handling. Once such a loop has
  processed the items before an item, a rejected remote call for that item ends the loop
  with that rejection, right after the rejected call, and the items after it are not
  processed: the describe call in the identity-pool classification loop (the identity pools
  before it keep their marks, the item and the ones after it are left as they were); the
  describe call, the domain deletion and the pool deletion (with or without a domain) in
  the user-pool deletion loop of \<open>index.ts\<close>; the pool deletion in the user-pool
  deletion loop of the second entry point; the deletion in the identity-pool deletion
  loop. A rejection that ends the identity-pool classification loop, the user-pool
  deletion loop or the identity-pool deletion loop is the outcome of \<open>main\<close>, which
  issues no further call.
\<close>

theorem classifyUserPools_isolates_failure:
  "(classifyUserPools b before h = Some (before', h1) \<longrightarrow>
    getAllUsers b (PoolId pool) [] True None h1 = Some (Inl err, h2) \<longrightarrow>
    classifyUserPools b after h2 = Some (after', h3) \<longrightarrow>
    classifyUserPools b (before @ pool # after) h = Some (before' @ pool # after', h3))
   \<and> (classifyIdentityPools b realPools identityBefore g = (Inr (), identityBefore', g1) \<longrightarrow>
       describeIdentityPool_reply b (g1 @ [DescribeIdentityPoolCall (IdentityPoolId identityPool)])
         = Inl err \<longrightarrow>
        classifyIdentityPools b realPools (identityBefore @ identityPool # identityPools) g
        = (Inl err, identityBefore' @ identityPool # identityPools,
           g1 @ [DescribeIdentityPoolCall (IdentityPoolId identityPool)]))
   \<and> (deleteUserPools b before g = (Inr (), g1) \<longrightarrow>
       describeUserPool_reply b (g1 @ [DescribeUserPoolCall (PoolId pool)]) = Inl err \<longrightarrow>
        deleteUserPools b (before @ pool # pools) g
        = (Inl err, g1 @ [DescribeUserPoolCall (PoolId pool)]))
   \<and> (deleteUserPools b before g = (Inr (), g1) \<longrightarrow>
       describeUserPool_reply b (g1 @ [DescribeUserPoolCall (PoolId pool)]) = Inr deleteUP \<longrightarrow>
       UserPool deleteUP = Some up \<longrightarrow> UserPoolDomain up = Some d \<longrightarrow> d \<noteq> [] \<longrightarrow>
       delete_reply b (g1 @ [DescribeUserPoolCall (PoolId pool),
                             DeleteUserPoolDomainCall (PoolId pool) d]) = Inl err \<longrightarrow>
        deleteUserPools b (before @ pool # pools) g
        = (Inl err, g1 @ [DescribeUserPoolCall (PoolId pool),
                          DeleteUserPoolDomainCall (PoolId pool) d]))
   \<and> (deleteUserPools b before g = (Inr (), g1) \<longrightarrow>
       describeUserPool_reply b (g1 @ [DescribeUserPoolCall (PoolId pool)]) = Inr deleteUP \<longrightarrow>
       UserPool deleteUP = Some up \<longrightarrow> UserPoolDomain up = Some d \<longrightarrow> d \<noteq> [] \<longrightarrow>
       delete_reply b (g1 @ [DescribeUserPoolCall (PoolId pool),
                             DeleteUserPoolDomainCall (PoolId pool) d]) = Inr () \<longrightarrow>
       delete_reply b (g1 @ [DescribeUserPoolCall (PoolId pool),
                             DeleteUserPoolDomainCall (PoolId pool) d,
                             DeleteUserPoolCall (PoolId pool)]) = Inl err \<longrightarrow>
        deleteUserPools b (before @ pool # pools) g
        = (Inl err, g1 @ [DescribeUserPoolCall (PoolId pool),
                          DeleteUserPoolDomainCall (PoolId pool) d,
                          DeleteUserPoolCall (PoolId pool)]))
   \<and> (deleteUserPools b before g = (Inr (), g1) \<longrightarrow>
       describeUserPool_reply b (g1 @ [DescribeUserPoolCall (PoolId pool)]) = Inr deleteUP \<longrightarrow>
       \<not> truthy (case UserPool deleteUP of None \<Rightarrow> None | Some up \<Rightarrow> UserPoolDomain up) \<longrightarrow>
       delete_reply b (g1 @ [DescribeUserPoolCall (PoolId pool), DeleteUserPoolCall (PoolId pool)])
         = Inl err \<longrightarrow>
        deleteUserPools b (before @ pool # pools) g
        = (Inl err, g1 @ [DescribeUserPoolCall (PoolId pool), DeleteUserPoolCall (PoolId pool)]))
   \<and> (deleteUserPools_direct b before g = (Inr (), g1) \<longrightarrow>
       delete_reply b (g1 @ [DeleteUserPoolCall (PoolId pool)]) = Inl err \<longrightarrow>
        deleteUserPools_direct b (before @ pool # pools) g
        = (Inl err, g1 @ [DeleteUserPoolCall (PoolId pool)]))
   \<and> (deleteIdentityPools b identityBefore g = (Inr (), g1) \<longrightarrow>
       delete_reply b (g1 @ [DeleteIdentityPoolCall (IdentityPoolId identityPool)]) = Inl err \<longrightarrow>
        deleteIdentityPools b (identityBefore @ identityPool # identityPools) g
        = (Inl err, g1 @ [DeleteIdentityPoolCall (IdentityPoolId identityPool)]))
   \<and> (listUserPools b st = Some (Inr listed, st1) \<longrightarrow>
       classifyUserPools b listed (history st1) = Some (classified, h2) \<longrightarrow>
       listIdentityPools b (st1\<lparr>history := h2, cachedUserPoolIds := classified\<rparr>)
         = Some (Inr identityListed, st3) \<longrightarrow>
       classifyIdentityPools b (realPoolsOf classified) identityListed (history st3)
         = (Inl err, identityClassified, h4) \<longrightarrow>
        main deleteLoop b st
        = Some (Inl err, st3\<lparr>history := h4, cachedIdentityPoolIds := identityClassified\<rparr>))
   \<and> (listUserPools b st = Some (Inr listed, st1) \<longrightarrow>
       classifyUserPools b listed (history st1) = Some (classified, h2) \<longrightarrow>
       listIdentityPools b (st1\<lparr>history := h2, cachedUserPoolIds := classified\<rparr>)
         = Some (Inr identityListed, st3) \<longrightarrow>
       classifyIdentityPools b (realPoolsOf classified) identityListed (history st3)
         = (Inr (), identityClassified, h4) \<longrightarrow>
       deleteLoop b (deletePoolsOf classified) h4 = (Inl err, h5) \<longrightarrow>
        main deleteLoop b st
        = Some (Inl err, st3\<lparr>history := h5, cachedIdentityPoolIds := identityClassified\<rparr>))
   \<and> (listUserPools b st = Some (Inr listed, st1) \<longrightarrow>
       classifyUserPools b listed (history st1) = Some (classified, h2) \<longrightarrow>
       listIdentityPools b (st1\<lparr>history := h2, cachedUserPoolIds := classified\<rparr>)
         = Some (Inr identityListed, st3) \<longrightarrow>
       classifyIdentityPools b (realPoolsOf classified) identityListed (history st3)
         = (Inr (), identityClassified, h4) \<longrightarrow>
       deleteLoop b (deletePoolsOf classified) h4 = (Inr (), h5) \<longrightarrow>
       deleteIdentityPools b (deletePoolsOf identityClassified) h5 = (Inl err, h6) \<longrightarrow>
        main deleteLoop b st
        = Some (Inl err, st3\<lparr>history := h6, cachedIdentityPoolIds := identityClassified\<rparr>))"
proof -
  have isolated: "classifyUserPools b (before @ pool # after) h = Some (before' @ pool # after', h3)"
    if "classifyUserPools b before h = Some (before', h1)"
      and "getAllUsers b (PoolId pool) [] True None h1 = Some (Inl err, h2)"
      and "classifyUserPools b after h2 = Some (after', h3)"
    using that by (simp add: classifyUserPools_append classifyUserPool_def)
  have identity: "classifyIdentityPools b realPools (identityBefore @ identityPool # identityPools) g
        = (Inl err, identityBefore' @ identityPool # identityPools,
           g1 @ [DescribeIdentityPoolCall (IdentityPoolId identityPool)])"
    if "classifyIdentityPools b realPools identityBefore g = (Inr (), identityBefore', g1)"
      and "describeIdentityPool_reply b (g1 @ [DescribeIdentityPoolCall (IdentityPoolId identityPool)])
         = Inl err"
    using that by (simp add: classifyIdentityPools_append describeIdentityPool_def remote_def)
  have d1: "deleteUserPools b (before @ pool # pools) g
        = (Inl err, g1 @ [DescribeUserPoolCall (PoolId pool)])"
    if "deleteUserPools b before g = (Inr (), g1)"
      and "describeUserPool_reply b (g1 @ [DescribeUserPoolCall (PoolId pool)]) = Inl err"
    using that
    by (simp add: deleteUserPools_append deleteUserPools_describe_rejected
          del: deleteUserPools.simps)
  have d2: "deleteUserPools b (before @ pool # pools) g
        = (Inl err, g1 @ [DescribeUserPoolCall (PoolId pool),
                          DeleteUserPoolDomainCall (PoolId pool) d])"
    if "deleteUserPools b before g = (Inr (), g1)"
      and "describeUserPool_reply b (g1 @ [DescribeUserPoolCall (PoolId pool)]) = Inr deleteUP"
      and "UserPool deleteUP = Some up" and "UserPoolDomain up = Some d" and "d \<noteq> []"
      and "delete_reply b (g1 @ [DescribeUserPoolCall (PoolId pool),
                             DeleteUserPoolDomainCall (PoolId pool) d]) = Inl err"
    using that(1) deleteUserPools_domain_rejected [OF that(2-6)]
    by (simp add: deleteUserPools_append del: deleteUserPools.simps)
  have d3: "deleteUserPools b (before @ pool # pools) g
        = (Inl err, g1 @ [DescribeUserPoolCall (PoolId pool),
                          DeleteUserPoolDomainCall (PoolId pool) d,
                          DeleteUserPoolCall (PoolId pool)])"
    if "deleteUserPools b before g = (Inr (), g1)"
      and "describeUserPool_reply b (g1 @ [DescribeUserPoolCall (PoolId pool)]) = Inr deleteUP"
      and "UserPool deleteUP = Some up" and "UserPoolDomain up = Some d" and "d \<noteq> []"
      and "delete_reply b (g1 @ [DescribeUserPoolCall (PoolId pool),
                             DeleteUserPoolDomainCall (PoolId pool) d]) = Inr ()"
      and "delete_reply b (g1 @ [DescribeUserPoolCall (PoolId pool),
                             DeleteUserPoolDomainCall (PoolId pool) d,
                             DeleteUserPoolCall (PoolId pool)]) = Inl err"
    using that(1) deleteUserPools_pool_rejected [OF that(2-7)]
    by (simp add: deleteUserPools_append del: deleteUserPools.simps)
  have d4: "deleteUserPools b (before @ pool # pools) g
        = (Inl err, g1 @ [DescribeUserPoolCall (PoolId pool), DeleteUserPoolCall (PoolId pool)])"
    if "deleteUserPools b before g = (Inr (), g1)"
      and "describeUserPool_reply b (g1 @ [DescribeUserPoolCall (PoolId pool)]) = Inr deleteUP"
      and "\<not> truthy (case UserPool deleteUP of None \<Rightarrow> None | Some up \<Rightarrow> UserPoolDomain up)"
      and "delete_reply b (g1 @ [DescribeUserPoolCall (PoolId pool), DeleteUserPoolCall (PoolId pool)])
         = Inl err"
    using that(1) deleteUserPools_bare_pool_rejected [OF that(2-4)]
    by (simp add: deleteUserPools_append del: deleteUserPools.simps)
  have direct: "deleteUserPools_direct b (before @ pool # pools) g
        = (Inl err, g1 @ [DeleteUserPoolCall (PoolId pool)])"
    if "deleteUserPools_direct b before g = (Inr (), g1)"
      and "delete_reply b (g1 @ [DeleteUserPoolCall (PoolId pool)]) = Inl err"
    using that by (simp add: deleteUserPools_direct_append cognito_deleteUserPool_def remote_def)
  have deleteIdentity: "deleteIdentityPools b (identityBefore @ identityPool # identityPools) g
        = (Inl err, g1 @ [DeleteIdentityPoolCall (IdentityPoolId identityPool)])"
    if "deleteIdentityPools b identityBefore g = (Inr (), g1)"
      and "delete_reply b (g1 @ [DeleteIdentityPoolCall (IdentityPoolId identityPool)]) = Inl err"
    using that
    by (simp add: deleteIdentityPools_append cognitoIdentity_deleteIdentityPool_def remote_def)
  have m1: "main deleteLoop b st
        = Some (Inl err, st3\<lparr>history := h4, cachedIdentityPoolIds := identityClassified\<rparr>)"
    if "listUserPools b st = Some (Inr listed, st1)"
      and "classifyUserPools b listed (history st1) = Some (classified, h2)"
      and "listIdentityPools b (st1\<lparr>history := h2, cachedUserPoolIds := classified\<rparr>)
         = Some (Inr identityListed, st3)"
      and "classifyIdentityPools b (realPoolsOf classified) identityListed (history st3)
         = (Inl err, identityClassified, h4)"
    using that by (simp add: main_def Let_def)
  have m2: "main deleteLoop b st
        = Some (Inl err, st3\<lparr>history := h5, cachedIdentityPoolIds := identityClassified\<rparr>)"
    if "listUserPools b st = Some (Inr listed, st1)"
      and "classifyUserPools b listed (history st1) = Some (classified, h2)"
      and "listIdentityPools b (st1\<lparr>history := h2, cachedUserPoolIds := classified\<rparr>)
         = Some (Inr identityListed, st3)"
      and "classifyIdentityPools b (realPoolsOf classified) identityListed (history st3)
         = (Inr (), identityClassified, h4)"
      and "deleteLoop b (deletePoolsOf classified) h4 = (Inl err, h5)"
    using that by (simp add: main_def Let_def)
  have m3: "main deleteLoop b st
        = Some (Inl err, st3\<lparr>history := h6, cachedIdentityPoolIds := identityClassified\<rparr>)"
    if "listUserPools b st = Some (Inr listed, st1)"
      and "classifyUserPools b listed (history st1) = Some (classified, h2)"
      and "listIdentityPools b (st1\<lparr>history := h2, cachedUserPoolIds := classified\<rparr>)
         = Some (Inr identityListed, st3)"
      and "classifyIdentityPools b (realPoolsOf classified) identityListed (history st3)
         = (Inr (), identityClassified, h4)"
      and "deleteLoop b (deletePoolsOf classified) h4 = (Inr (), h5)"
      and "deleteIdentityPools b (deletePoolsOf identityClassified) h5 = (Inl err, h6)"
    using that by (simp add: main_def Let_def)
  show ?thesis
    by (intro conjI impI isolated identity d1 d2 d3 d4 direct deleteIdentity m1 m2 m3)
qed

theorem classifyUserPools_isolates_failure_witness:
  "classifyUserPools backend6_users [poolB, poolA, poolB] []
     = Some ([poolB\<lparr>isPrepareToDelete := Some True, reasonDelete := Some ''Is empty users'',
                    poolUsers := Some []\<rparr>,
              poolA,
              poolB\<lparr>isPrepareToDelete := Some True, reasonDelete := Some ''Is empty users'',
                    poolUsers := Some []\<rparr>],
             [ListUsersCall ''eu-central-1_B'' None, ListUsersCall ''eu-central-1_A'' None,
              ListUsersCall ''eu-central-1_B'' None])
   \<and> classifyIdentityPools backend6_identity [] [identityPoolX, identityPoolY, identityPoolX] []
     = (Inl throttled, [identityPoolX_marked, identityPoolY, identityPoolX],
        [DescribeIdentityPoolCall ''eu-central-1:x'', DescribeIdentityPoolCall ''eu-central-1:y''])
   \<and> deleteUserPools backend6_later [poolA_marked, poolB, poolA_marked] []
     = (Inl throttled,
        [DescribeUserPoolCall ''eu-central-1_A'',
         DeleteUserPoolDomainCall ''eu-central-1_A'' ''auth-a'',
         DeleteUserPoolCall ''eu-central-1_A'', DescribeUserPoolCall ''eu-central-1_B''])
   \<and> deleteUserPools backend6_domain [poolA_marked, poolB] []
     = (Inl throttled,
        [DescribeUserPoolCall ''eu-central-1_A'',
         DeleteUserPoolDomainCall ''eu-central-1_A'' ''auth-a''])
   \<and> deleteUserPools backend6_pool [poolA_marked, poolB] []
     = (Inl throttled,
        [DescribeUserPoolCall ''eu-central-1_A'',
         DeleteUserPoolDomainCall ''eu-central-1_A'' ''auth-a'',
         DeleteUserPoolCall ''eu-central-1_A''])
   \<and> deleteUserPools backend6_nodomain [poolA_marked, poolB] []
     = (Inl throttled,
        [DescribeUserPoolCall ''eu-central-1_A'', DeleteUserPoolCall ''eu-central-1_A''])
   \<and> deleteUserPools_direct backend6 [poolA_marked, poolB] []
     = (Inl throttled, [DeleteUserPoolCall ''eu-central-1_A''])
   \<and> deleteIdentityPools backend6 [identityPoolX, identityPoolY] []
     = (Inl throttled, [DeleteIdentityPoolCall ''eu-central-1:x''])
   \<and> main deleteUserPools backend6_identity freshRun
     = Some (Inl throttled,
             \<lparr>history = [ListUserPoolsCall 60 None, ListUsersCall ''eu-central-1_A'' None,
                         ListIdentityPoolsCall 60 None,
                         DescribeIdentityPoolCall ''eu-central-1:x'',
                         DescribeIdentityPoolCall ''eu-central-1:y''],
              cachedUserPoolIds = [poolA_marked],
              cachedIdentityPoolIds = [identityPoolX_marked, identityPoolY]\<rparr>)
   \<and> main deleteUserPools backend6_domain freshRun
     = Some (Inl throttled,
             \<lparr>history = [ListUserPoolsCall 60 None, ListUsersCall ''eu-central-1_A'' None,
                         ListIdentityPoolsCall 60 None,
                         DescribeUserPoolCall ''eu-central-1_A'',
                         DeleteUserPoolDomainCall ''eu-central-1_A'' ''auth-a''],
              cachedUserPoolIds = [poolA_marked],
              cachedIdentityPoolIds = []\<rparr>)
   \<and> main deleteUserPools backend6_last freshRun
     = Some (Inl throttled,
             \<lparr>history = [ListUserPoolsCall 60 None, ListUsersCall ''eu-central-1_A'' None,
                         ListIdentityPoolsCall 60 None,
                         DescribeIdentityPoolCall ''eu-central-1:x'',
                         DescribeUserPoolCall ''eu-central-1_A'',
                         DeleteUserPoolDomainCall ''eu-central-1_A'' ''auth-a'',
                         DeleteUserPoolCall ''eu-central-1_A'',
                         DeleteIdentityPoolCall ''eu-central-1:x''],
              cachedUserPoolIds = [poolA_marked],
              cachedIdentityPoolIds = [identityPoolX_marked]\<rparr>)"
proof -
  let ?B = "poolB\<lparr>isPrepareToDelete := Some True, reasonDelete := Some ''Is empty users'',
                  poolUsers := Some []\<rparr>"
  let ?LUP = "ListUserPoolsCall 60 None" and ?LU = "ListUsersCall ''eu-central-1_A'' None"
    and ?LIP = "ListIdentityPoolsCall 60 None"
    and ?DX = "DescribeIdentityPoolCall ''eu-central-1:x''"
    and ?DY = "DescribeIdentityPoolCall ''eu-central-1:y''"
    and ?DA = "DescribeUserPoolCall ''eu-central-1_A''"
    and ?DB = "DescribeUserPoolCall ''eu-central-1_B''"
    and ?DD = "DeleteUserPoolDomainCall ''eu-central-1_A'' ''auth-a''"
    and ?DP = "DeleteUserPoolCall ''eu-central-1_A''"
    and ?DI = "DeleteIdentityPoolCall ''eu-central-1:x''"
  note t = classifyUserPools_isolates_failure
  note tm = classifyUserPools_isolates_failure [where deleteLoop = deleteUserPools]
  have idA: "PoolId poolA = ''eu-central-1_A''" and idB: "PoolId poolB = ''eu-central-1_B''"
    and idM: "PoolId poolA_marked = ''eu-central-1_A''"
    and idX: "IdentityPoolId identityPoolX = ''eu-central-1:x''"
    and idY: "IdentityPoolId identityPoolY = ''eu-central-1:y''"
    and idXm: "IdentityPoolId identityPoolX_marked = ''eu-central-1:x''"
    by (simp_all add: poolA_def poolB_def poolA_marked_def identityPoolX_def identityPoolY_def
          identityPoolX_marked_def)
  have uB: "\<And>h. getAllUsers backend6_users ''eu-central-1_B'' [] True None h
            = Some (Inr [], h @ [ListUsersCall ''eu-central-1_B'' None])"
    using getAllUsers_last_page [where b = backend6_users and acc = "[]"
            and page = "\<lparr>Users = [], PaginationToken = None\<rparr>"]
    by (simp add: backend6_users_def)
  have uA: "\<And>h. getAllUsers backend6_users (PoolId poolA) [] True None h
            = Some (Inl throttled, h @ [ListUsersCall ''eu-central-1_A'' None])"
    using getAllUsers_rejected [where b = backend6_users and err = throttled] throttled_class
    by (simp add: backend6_users_def idA)
  have cB: "\<And>h. classifyUserPools backend6_users [poolB] h
            = Some ([?B], h @ [ListUsersCall ''eu-central-1_B'' None])"
    by (simp add: uB idB classifyUserPool_def)
  have c1: "classifyUserPools backend6_users ([poolB] @ poolA # [poolB]) []
           = Some ([?B] @ poolA # [?B],
                   ([] @ [ListUsersCall ''eu-central-1_B'' None]) @ [ListUsersCall ''eu-central-1_A'' None]
                   @ [ListUsersCall ''eu-central-1_B'' None])"
    using t [THEN conjunct1, THEN mp, OF cB, THEN mp, OF uA, THEN mp, OF cB] by simp

  have marks: "marked poolA_marked" "marked identityPoolX_marked" "\<not> marked identityPoolY"
    by (simp_all add: marked_def poolA_marked_def identityPoolX_marked_def identityPoolY_def)
  have filters: "deletePoolsOf [poolA_marked] = [poolA_marked]" "realPoolsOf [poolA_marked] = []"
    "deletePoolsOf [identityPoolX_marked] = [identityPoolX_marked]"
    "deletePoolsOf ([] :: identity_pool list) = []"
    by (simp_all add: deletePoolsOf_def realPoolsOf_def marks)

  have iX: "\<And>b h. describeIdentityPool_reply b (h @ [?DX])
                     = Inr (Some \<lparr>CognitoIdentityProviders = Some []\<rparr>) \<Longrightarrow>
            classifyIdentityPools b [] [identityPoolX] h = (Inr (), [identityPoolX_marked], h @ [?DX])"
    by (simp add: describeIdentityPool_def remote_def idX classifyIdentityPool_def
          identityPoolX_marked_def)
  have iX6: "classifyIdentityPools backend6_identity [] [identityPoolX] []
             = (Inr (), [identityPoolX_marked], [?DX])"
    using iX [of backend6_identity "[]"] by (simp add: backend6_identity_def)
  have rY: "describeIdentityPool_reply backend6_identity
              ([?DX] @ [DescribeIdentityPoolCall (IdentityPoolId identityPoolY)]) = Inl throttled"
    by (simp add: backend6_identity_def idY)
  have c2: "classifyIdentityPools backend6_identity []
              ([identityPoolX] @ identityPoolY # [identityPoolX]) []
            = (Inl throttled, [identityPoolX_marked] @ identityPoolY # [identityPoolX],
               [?DX] @ [DescribeIdentityPoolCall (IdentityPoolId identityPoolY)])"
    using t [THEN conjunct2, THEN conjunct1, THEN mp, OF iX6, THEN mp, OF rY] .

  have dA: "\<And>b h. describeUserPool_reply b (h @ [?DA])
                      = Inr \<lparr>UserPool = Some \<lparr>UserPoolDomain = Some ''auth-a''\<rparr>\<rparr> \<Longrightarrow>
                    delete_reply b (h @ [?DA, ?DD]) = Inr () \<Longrightarrow>
                    delete_reply b (h @ [?DA, ?DD, ?DP]) = Inr () \<Longrightarrow>
            deleteUserPools b [poolA_marked] h = (Inr (), h @ [?DA, ?DD, ?DP])"
    by (simp add: cognito_describeUserPool_def cognito_deleteUserPoolDomain_def
          cognito_deleteUserPool_def remote_def idM)
  have dAl: "deleteUserPools backend6_later [poolA_marked] [] = (Inr (), [?DA, ?DD, ?DP])"
    using dA [of backend6_later "[]"] by (simp add: backend6_later_def backend5_def)
  have rB: "describeUserPool_reply backend6_later
              ([?DA, ?DD, ?DP] @ [DescribeUserPoolCall (PoolId poolB)]) = Inl throttled"
    by (simp add: backend6_later_def idB)
  have c3: "deleteUserPools backend6_later ([poolA_marked] @ poolB # [poolA_marked]) []
            = (Inl throttled, [?DA, ?DD, ?DP] @ [DescribeUserPoolCall (PoolId poolB)])"
    using t [THEN conjunct2, THEN conjunct2, THEN conjunct1, THEN mp, OF dAl, THEN mp, OF rB] .

  have nil: "\<And>b g. deleteUserPools b [] g = (Inr (), g)"
    "\<And>b g. deleteUserPools_direct b [] g = (Inr (), g)"
    "\<And>b g. deleteIdentityPools b [] g = (Inr (), g)"
    by simp_all
  have up: "UserPool \<lparr>UserPool = Some \<lparr>UserPoolDomain = Some ''auth-a''\<rparr>\<rparr>
            = Some \<lparr>UserPoolDomain = Some ''auth-a''\<rparr>"
    and dom: "UserPoolDomain \<lparr>UserPoolDomain = Some ''auth-a''\<rparr> = Some ''auth-a''"
    and ne: "''auth-a'' \<noteq> []"
    and nodom: "\<not> truthy (case UserPool \<lparr>UserPool = Some \<lparr>UserPoolDomain = None\<rparr>\<rparr> of
                             None \<Rightarrow> None | Some up \<Rightarrow> UserPoolDomain up)"
    by simp_all
  have r4: "\<And>g. describeUserPool_reply backend6_domain (g @ [DescribeUserPoolCall (PoolId poolA_marked)])
            = Inr \<lparr>UserPool = Some \<lparr>UserPoolDomain = Some ''auth-a''\<rparr>\<rparr>"
    and r4': "\<And>g. delete_reply backend6_domain
                 (g @ [DescribeUserPoolCall (PoolId poolA_marked),
                       DeleteUserPoolDomainCall (PoolId poolA_marked) ''auth-a'']) = Inl throttled"
    by (simp_all add: backend6_domain_def backend5_def)
  have c4g: "\<And>g. deleteUserPools backend6_domain ([] @ poolA_marked # [poolB]) g
            = (Inl throttled, g @ [DescribeUserPoolCall (PoolId poolA_marked),
                                   DeleteUserPoolDomainCall (PoolId poolA_marked) ''auth-a''])"
    using t [THEN conjunct2, THEN conjunct2, THEN conjunct2, THEN conjunct1,
             THEN mp, OF nil(1), THEN mp, OF r4, THEN mp, OF up, THEN mp, OF dom,
             THEN mp, OF ne, THEN mp, OF r4'] .
  have r5: "describeUserPool_reply backend6_pool ([] @ [DescribeUserPoolCall (PoolId poolA_marked)])
            = Inr \<lparr>UserPool = Some \<lparr>UserPoolDomain = Some ''auth-a''\<rparr>\<rparr>"
    and r5': "delete_reply backend6_pool
                 ([] @ [DescribeUserPoolCall (PoolId poolA_marked),
                        DeleteUserPoolDomainCall (PoolId poolA_marked) ''auth-a'']) = Inr ()"
    and r5'': "delete_reply backend6_pool
                 ([] @ [DescribeUserPoolCall (PoolId poolA_marked),
                        DeleteUserPoolDomainCall (PoolId poolA_marked) ''auth-a'',
                        DeleteUserPoolCall (PoolId poolA_marked)]) = Inl throttled"
    by (simp_all add: backend6_pool_def backend5_def)
  have c5: "deleteUserPools backend6_pool ([] @ poolA_marked # [poolB]) []
            = (Inl throttled, [] @ [DescribeUserPoolCall (PoolId poolA_marked),
                                    DeleteUserPoolDomainCall (PoolId poolA_marked) ''auth-a'',
                                    DeleteUserPoolCall (PoolId poolA_marked)])"
    using t [THEN conjunct2, THEN conjunct2, THEN conjunct2, THEN conjunct2, THEN conjunct1,
             THEN mp, OF nil(1), THEN mp, OF r5, THEN mp, OF up, THEN mp, OF dom,
             THEN mp, OF ne, THEN mp, OF r5', THEN mp, OF r5''] .
  have r6: "describeUserPool_reply backend6_nodomain
              ([] @ [DescribeUserPoolCall (PoolId poolA_marked)])
            = Inr \<lparr>UserPool = Some \<lparr>UserPoolDomain = None\<rparr>\<rparr>"
    and r6': "delete_reply backend6_nodomain
                 ([] @ [DescribeUserPoolCall (PoolId poolA_marked),
                        DeleteUserPoolCall (PoolId poolA_marked)]) = Inl throttled"
    by (simp_all add: backend6_nodomain_def backend5_def)
  have c6: "deleteUserPools backend6_nodomain ([] @ poolA_marked # [poolB]) []
            = (Inl throttled, [] @ [DescribeUserPoolCall (PoolId poolA_marked),
                                    DeleteUserPoolCall (PoolId poolA_marked)])"
    using t [THEN conjunct2, THEN conjunct2, THEN conjunct2, THEN conjunct2, THEN conjunct2,
             THEN conjunct1,
             THEN mp, OF nil(1), THEN mp, OF r6, THEN mp, OF nodom, THEN mp, OF r6'] .
  have r7: "delete_reply backend6 ([] @ [DeleteUserPoolCall (PoolId poolA_marked)]) = Inl throttled"
    and r8: "\<And>g. delete_reply backend6 (g @ [DeleteIdentityPoolCall (IdentityPoolId identityPoolX)])
             = Inl throttled"
    by (simp_all add: backend6_def)
  have c7: "deleteUserPools_direct backend6 ([] @ poolA_marked # [poolB]) []
            = (Inl throttled, [] @ [DeleteUserPoolCall (PoolId poolA_marked)])"
    using t [THEN conjunct2, THEN conjunct2, THEN conjunct2, THEN conjunct2, THEN conjunct2,
             THEN conjunct2, THEN conjunct1, THEN mp, OF nil(2), THEN mp, OF r7] .
  have c8: "deleteIdentityPools backend6 ([] @ identityPoolX # [identityPoolY]) []
            = (Inl throttled, [] @ [DeleteIdentityPoolCall (IdentityPoolId identityPoolX)])"
    using t [THEN conjunct2, THEN conjunct2, THEN conjunct2, THEN conjunct2, THEN conjunct2,
             THEN conjunct2, THEN conjunct2, THEN conjunct1, THEN mp, OF nil(3), THEN mp, OF r8] .

  have fresh: "cachedUserPoolIds freshRun = []" "cachedIdentityPoolIds freshRun = []"
    "history freshRun = []"
    by (simp_all add: freshRun_def)
  let ?st1 = "freshRun\<lparr>history := history freshRun @ [?LUP], cachedUserPoolIds := [poolA]\<rparr>"
  let ?st2 = "?st1\<lparr>history := history ?st1 @ [?LU], cachedUserPoolIds := [poolA_marked]\<rparr>"
  have st2: "cachedIdentityPoolIds ?st2 = []" "history ?st2 = [?LUP, ?LU]"
    by (simp_all add: fresh)
  have lup: "\<And>b. listUserPools_reply b = listUserPools_reply backend5 \<Longrightarrow>
               listUserPools b freshRun = Some (Inr [poolA], ?st1)"
    by (rule listUserPools_one_page) (simp_all add: fresh backend5_def)
  have cup: "\<And>b. listUsers_reply b = listUsers_reply backend5 \<Longrightarrow>
               classifyUserPools b [poolA] (history ?st1)
               = Some ([poolA_marked], history ?st1 @ [?LU])"
    by (rule classifyUserPools_poolA_empty) (simp add: backend5_def)
  have lip: "\<And>b pools. listIdentityPools_reply b
                 = (\<lambda>h. Inr (Some \<lparr>IdentityPools = Some pools, IdentityPools_NextToken = None\<rparr>)) \<Longrightarrow>
               listIdentityPools b ?st2
               = Some (Inr pools, ?st2\<lparr>history := history ?st2 @ [?LIP],
                                         cachedIdentityPoolIds := pools\<rparr>)"
    by (rule listIdentityPools_one_page) (simp_all add: fresh)

  let ?stI = "?st2\<lparr>history := history ?st2 @ [?LIP],
                   cachedIdentityPoolIds := [identityPoolX, identityPoolY]\<rparr>"
  have a1: "listUserPools backend6_identity freshRun = Some (Inr [poolA], ?st1)"
    by (rule lup) (simp add: backend6_identity_def)
  have a2: "classifyUserPools backend6_identity [poolA] (history ?st1)
            = Some ([poolA_marked], history ?st1 @ [?LU])"
    by (rule cup) (simp add: backend6_identity_def)
  have a3: "listIdentityPools backend6_identity ?st2 = Some (Inr [identityPoolX, identityPoolY], ?stI)"
    by (rule lip) (simp add: backend6_identity_def)
  have a4: "classifyIdentityPools backend6_identity (realPoolsOf [poolA_marked])
              [identityPoolX, identityPoolY] (history ?stI)
            = (Inl throttled, [identityPoolX_marked, identityPoolY], history ?stI @ [?DX, ?DY])"
    by (simp add: filters describeIdentityPool_def remote_def idX idY classifyIdentityPool_def
          identityPoolX_marked_def backend6_identity_def)
  have c9: "main deleteUserPools backend6_identity freshRun
            = Some (Inl throttled,
                    ?stI\<lparr>history := history ?stI @ [?DX, ?DY],
                         cachedIdentityPoolIds := [identityPoolX_marked, identityPoolY]\<rparr>)"
    using tm [THEN conjunct2, THEN conjunct2, THEN conjunct2, THEN conjunct2, THEN conjunct2,
             THEN conjunct2, THEN conjunct2, THEN conjunct2, THEN conjunct1,
             THEN mp, OF a1, THEN mp, OF a2, THEN mp, OF a3, THEN mp, OF a4] .

  let ?stD = "?st2\<lparr>history := history ?st2 @ [?LIP], cachedIdentityPoolIds := []\<rparr>"
  have b1: "listUserPools backend6_domain freshRun = Some (Inr [poolA], ?st1)"
    by (rule lup) (simp add: backend6_domain_def)
  have b2: "classifyUserPools backend6_domain [poolA] (history ?st1)
            = Some ([poolA_marked], history ?st1 @ [?LU])"
    by (rule cup) (simp add: backend6_domain_def)
  have b3: "listIdentityPools backend6_domain ?st2 = Some (Inr [], ?stD)"
    by (rule lip) (simp add: backend6_domain_def backend5_def)
  have b4: "classifyIdentityPools backend6_domain (realPoolsOf [poolA_marked]) [] (history ?stD)
            = (Inr (), [], history ?stD)"
    by simp
  have b5: "deleteUserPools backend6_domain (deletePoolsOf [poolA_marked]) (history ?stD)
            = (Inl throttled, history ?stD @ [?DA, ?DD])"
    using c4g [of "history ?stD"] dAl
    by (simp add: filters idM cognito_describeUserPool_def cognito_deleteUserPoolDomain_def
          remote_def backend6_domain_def backend5_def)
  have c10: "main deleteUserPools backend6_domain freshRun
            = Some (Inl throttled,
                    ?stD\<lparr>history := history ?stD @ [?DA, ?DD], cachedIdentityPoolIds := []\<rparr>)"
    using tm [THEN conjunct2, THEN conjunct2, THEN conjunct2, THEN conjunct2, THEN conjunct2,
             THEN conjunct2, THEN conjunct2, THEN conjunct2, THEN conjunct2, THEN conjunct1,
             THEN mp, OF b1, THEN mp, OF b2, THEN mp, OF b3, THEN mp, OF b4, THEN mp, OF b5] .

  let ?stL = "?st2\<lparr>history := history ?st2 @ [?LIP], cachedIdentityPoolIds := [identityPoolX]\<rparr>"
  have e1: "listUserPools backend6_last freshRun = Some (Inr [poolA], ?st1)"
    by (rule lup) (simp add: backend6_last_def)
  have e2: "classifyUserPools backend6_last [poolA] (history ?st1)
            = Some ([poolA_marked], history ?st1 @ [?LU])"
    by (rule cup) (simp add: backend6_last_def)
  have e3: "listIdentityPools backend6_last ?st2 = Some (Inr [identityPoolX], ?stL)"
    by (rule lip) (simp add: backend6_last_def)
  have e4: "classifyIdentityPools backend6_last (realPoolsOf [poolA_marked]) [identityPoolX]
              (history ?stL)
            = (Inr (), [identityPoolX_marked], history ?stL @ [?DX])"
    using iX [of backend6_last "history ?stL"] by (simp add: filters backend6_last_def)
  have e5: "deleteUserPools backend6_last (deletePoolsOf [poolA_marked]) (history ?stL @ [?DX])
            = (Inr (), (history ?stL @ [?DX]) @ [?DA, ?DD, ?DP])"
    using dA [of backend6_last "history ?stL @ [?DX]"]
    by (simp add: filters backend6_last_def backend5_def)
  have e6: "deleteIdentityPools backend6_last (deletePoolsOf [identityPoolX_marked])
              ((history ?stL @ [?DX]) @ [?DA, ?DD, ?DP])
            = (Inl throttled, (history ?stL @ [?DX]) @ [?DA, ?DD, ?DP] @ [?DI])"
    by (simp add: filters cognitoIdentity_deleteIdentityPool_def remote_def idXm backend6_last_def)
  have c11: "main deleteUserPools backend6_last freshRun
            = Some (Inl throttled,
                    ?stL\<lparr>history := (history ?stL @ [?DX]) @ [?DA, ?DD, ?DP] @ [?DI],
                         cachedIdentityPoolIds := [identityPoolX_marked]\<rparr>)"
    using tm [THEN conjunct2, THEN conjunct2, THEN conjunct2, THEN conjunct2, THEN conjunct2,
             THEN conjunct2, THEN conjunct2, THEN conjunct2, THEN conjunct2, THEN conjunct2,
             THEN mp, OF e1, THEN mp, OF e2, THEN mp, OF e3, THEN mp, OF e4, THEN mp, OF e5,
             THEN mp, OF e6] .

  have g1: "classifyUserPools backend6_users [poolB, poolA, poolB] []
     = Some ([?B, poolA, ?B],
             [ListUsersCall ''eu-central-1_B'' None, ListUsersCall ''eu-central-1_A'' None,
              ListUsersCall ''eu-central-1_B'' None])"
    using c1 by simp
  have g2: "classifyIdentityPools backend6_identity [] [identityPoolX, identityPoolY, identityPoolX] []
     = (Inl throttled, [identityPoolX_marked, identityPoolY, identityPoolX], [?DX, ?DY])"
    using c2 by (simp add: idY)
  have g3: "deleteUserPools backend6_later [poolA_marked, poolB, poolA_marked] []
     = (Inl throttled, [?DA, ?DD, ?DP, ?DB])"
    using c3 by (simp add: idB)
  have g4: "deleteUserPools backend6_domain [poolA_marked, poolB] [] = (Inl throttled, [?DA, ?DD])"
    using c4g [of "[]"] by (simp add: idM)
  have g5: "deleteUserPools backend6_pool [poolA_marked, poolB] []
     = (Inl throttled, [?DA, ?DD, ?DP])"
    using c5 by (simp add: idM)
  have g6: "deleteUserPools backend6_nodomain [poolA_marked, poolB] [] = (Inl throttled, [?DA, ?DP])"
    using c6 by (simp add: idM)
  have g7: "deleteUserPools_direct backend6 [poolA_marked, poolB] [] = (Inl throttled, [?DP])"
    using c7 by (simp add: idM)
  have g8: "deleteIdentityPools backend6 [identityPoolX, identityPoolY] [] = (Inl throttled, [?DI])"
    using c8 by (simp add: idX)
  have g9: "main deleteUserPools backend6_identity freshRun
     = Some (Inl throttled,
             \<lparr>history = [?LUP, ?LU, ?LIP, ?DX, ?DY],
              cachedUserPoolIds = [poolA_marked],
              cachedIdentityPoolIds = [identityPoolX_marked, identityPoolY]\<rparr>)"
    using c9 by (simp add: freshRun_def)
  have g10: "main deleteUserPools backend6_domain freshRun
     = Some (Inl throttled,
             \<lparr>history = [?LUP, ?LU, ?LIP, ?DA, ?DD],
              cachedUserPoolIds = [poolA_marked],
              cachedIdentityPoolIds = []\<rparr>)"
    using c10 by (simp add: freshRun_def)
  have g11: "main deleteUserPools backend6_last freshRun
     = Some (Inl throttled,
             \<lparr>history = [?LUP, ?LU, ?LIP, ?DX, ?DA, ?DD, ?DP, ?DI],
              cachedUserPoolIds = [poolA_marked],
              cachedIdentityPoolIds = [identityPoolX_marked]\<rparr>)"
    using c11 by (simp add: freshRun_def)
  show ?thesis
    by (intro conjI g1 g2 g3 g4 g5 g6 g7 g8 g9 g10 g11)
qed

section \<open>The classification loop, pool by pool\<close>

text \<open>Every pool of the list is classified from the outcome of its own enumeration,
  whatever the outcomes of the other pools.\<close>

lemma classifyUserPools_each:
  assumes "classifyUserPools b before h = Some (before', h1)"
    and "getAllUsers b (PoolId pool) [] True None h1 = Some (outcome, h2)"
    and "classifyUserPools b after h2 = Some (after', h3)"
  shows "classifyUserPools b (before @ pool # after) h
         = Some (before' @ classifyUserPool pool outcome # after', h3)"
  using assms by (simp add: classifyUserPools_append)

section \<open>Strings\<close>

lemma endsWith_iff_suffix: "endsWith s t \<longleftrightarrow> suffix t s"
proof
  assume "endsWith s t"
  then have "s = take (length s - length t) s @ t"
    by (simp add: endsWith_def) (metis append_take_drop_id)
  then show "suffix t s"
    unfolding suffix_def by blast
next
  assume "suffix t s"
  then obtain zs where "s = zs @ t"
    unfolding suffix_def by blast
  then show "endsWith s t"
    by (simp add: endsWith_def)
qed

lemma startsWith_iff_prefix: "startsWith s t \<longleftrightarrow> prefix t s"
  by (auto simp add: startsWith_def prefix_def) (metis append_eq_conv_conj)

lemma endsWith_append: "endsWith (local @ t) t"
  by (simp add: endsWith_def)

lemma endsWith_shorter: "endsWith s (a @ t) \<Longrightarrow> endsWith s t"
  by (auto simp add: endsWith_iff_suffix dest: suffix_appendD)

lemma indexOf_absent: "c \<notin> set s \<Longrightarrow> indexOf s c = - 1"
  by (induction s) (auto simp add: Let_def)

lemma indexOf_present: "c \<in> set s \<Longrightarrow> 0 \<le> indexOf s c"
  by (induction s) (auto simp add: Let_def)

lemma indexOf_nonneg_iff: "0 \<le> indexOf s c \<longleftrightarrow> c \<in> set s"
proof
  assume "0 \<le> indexOf s c"
  show "c \<in> set s"
  proof (rule ccontr)
    assume "c \<notin> set s"
    then have "indexOf s c = - 1" by (rule indexOf_absent)
    with \<open>0 \<le> indexOf s c\<close> show False by simp
  qed
next
  assume "c \<in> set s"
  then show "0 \<le> indexOf s c" by (rule indexOf_present)
qed

lemma substring_absent: "c \<notin> set s \<Longrightarrow> substring s (indexOf s c) = s"
  by (simp add: indexOf_absent substring_def)

lemma replaceFirst_keeps_out:
  "x \<notin> set s \<Longrightarrow> x \<noteq> d \<Longrightarrow> x \<notin> set (replaceFirst s c d)"
  by (induction s) auto

section \<open>The memoized transform\<close>

lemma scrubbedEmailMemo_hit:
  "memo_cache st email = Some r \<Longrightarrow> scrubbedEmailMemo names_choose email st = (r, st)"
  by (simp add: scrubbedEmailMemo_def)

lemma scrubbedEmailMemo_stores:
  "memo_cache (snd (scrubbedEmailMemo names_choose email st)) email
   = Some (fst (scrubbedEmailMemo names_choose email st))"
  by (simp add: scrubbedEmailMemo_def Let_def split: option.splits prod.splits)

lemma scrubbedEmailMemo_keeps:
  "memo_cache st email = Some r \<Longrightarrow>
   memo_cache (snd (scrubbedEmailMemo names_choose other st)) email = Some r"
  by (auto simp add: scrubbedEmailMemo_def Let_def split: option.splits prod.splits)

lemma scrubbedEmails_keeps:
  "memo_cache st email = Some r \<Longrightarrow>
   memo_cache (scrubbedEmails names_choose between st) email = Some r"
  by (induction between arbitrary: st) (simp_all add: scrubbedEmailMemo_keeps)

text \<open>Once an email address has been through the transform, every later call with it
  returns the same identity and changes nothing.\<close>

lemma scrubbedEmailMemo_again:
  "scrubbedEmailMemo names_choose email
     (scrubbedEmails names_choose between (snd (scrubbedEmailMemo names_choose email st)))
   = (fst (scrubbedEmailMemo names_choose email st),
      scrubbedEmails names_choose between (snd (scrubbedEmailMemo names_choose email st)))"
  by (rule scrubbedEmailMemo_hit) (rule scrubbedEmails_keeps, rule scrubbedEmailMemo_stores)

lemma scrubbedEmailMemo_miss:
  "memo_cache st email = None \<Longrightarrow>
   fst (scrubbedEmailMemo names_choose email st)
   = \<lparr>scrubbed_first = at (splitStr (fst (names_choose (names_state st))) CHR ''-'') 0,
      scrubbed_last = at (splitStr (fst (names_choose (names_state st))) CHR ''-'') 1,
      scrubbed_email = replaceFirst (fst (names_choose (names_state st))) CHR ''-'' CHR ''.''
                       @ substring email (indexOf email CHR ''@'')\<rparr>"
  by (simp add: scrubbedEmailMemo_def scrubbedEmail_def Let_def split: prod.splits)

lemma scrubPoolUser_scrubs:
  assumes "oldEmailOf usr = Some oldEmail"
    and "\<not> endsWith oldEmail ''cleo.com''" and "\<not> endsWith oldEmail ''mailosaur.io''"
  shows "scrubPoolUser names_choose usr st
         = (Inr (scrubbedUser usr (fst (scrubbedEmailMemo names_choose oldEmail st))),
            snd (scrubbedEmailMemo names_choose oldEmail st))"
  using assms by (simp add: scrubPoolUser_def split: prod.splits)

lemma scrubPoolUser_skips:
  assumes "oldEmailOf usr = Some oldEmail"
    and "endsWith oldEmail ''cleo.com'' \<or> endsWith oldEmail ''mailosaur.io''"
  shows "scrubPoolUser names_choose usr st = (Inr usr, st)"
  using assms by (simp add: scrubPoolUser_def)

lemma oldEmailOf_absent:
  "find (\<lambda>attr. Name attr = ''email'') (Attributes usr) = None \<Longrightarrow> oldEmailOf usr = Some []"
  by (simp add: oldEmailOf_def)

lemma not_endsWith_empty: "\<not> endsWith [] ''cleo.com''" "\<not> endsWith [] ''mailosaur.io''"
  by (simp_all add: endsWith_def)

section \<open>Anonymization\<close>

text \<open>
  Claim C7. Within one run (one state of the cache and of the name generator, threaded
  through the calls), the transform called again with an email address it has already
  been called with, after any number of calls with other or the same addresses, returns
  the identity it returned the first time. \<open>scrubPoolUser\<close> returns a user whose email
  address is on the domain \<open>cleo.com\<close> or \<open>mailosaur.io\<close> unchanged, and leaves the
  state as it is.
\<close>

theorem scrubbedEmailMemo_deterministic:
  "fst (scrubbedEmailMemo names_choose email
          (scrubbedEmails names_choose between (snd (scrubbedEmailMemo names_choose email st))))
   = fst (scrubbedEmailMemo names_choose email st)
   \<and> (oldEmailOf usr = Some (local @ ''@cleo.com'') \<longrightarrow>
        scrubPoolUser names_choose usr st = (Inr usr, st))
   \<and> (oldEmailOf usr = Some (local @ ''@mailosaur.io'') \<longrightarrow>
        scrubPoolUser names_choose usr st = (Inr usr, st))"
proof -
  have cleo: "endsWith (local @ ''@cleo.com'') ''cleo.com''"
    using endsWith_append [of local "''@cleo.com''"]
    by (rule endsWith_shorter [where a = "''@''", simplified])
  have mailosaur: "endsWith (local @ ''@mailosaur.io'') ''mailosaur.io''"
    using endsWith_append [of local "''@mailosaur.io''"]
    by (rule endsWith_shorter [where a = "''@''", simplified])
  show ?thesis
    using cleo mailosaur
    by (simp add: scrubbedEmailMemo_again scrubPoolUser_skips)
qed

theorem scrubbedEmailMemo_deterministic_witness:
  "fst (scrubbedEmailMemo stubNames ''alice@example.com'' freshScrub)
     = \<lparr>scrubbed_first = Some ''happy'', scrubbed_last = Some ''cat'',
        scrubbed_email = ''happy.cat@example.com''\<rparr>
   \<and> fst (scrubbedEmailMemo stubNames ''alice@example.com''
          (scrubbedEmails stubNames [''zoe@example.org'']
             (snd (scrubbedEmailMemo stubNames ''alice@example.com'' freshScrub))))
     = \<lparr>scrubbed_first = Some ''happy'', scrubbed_last = Some ''cat'',
        scrubbed_email = ''happy.cat@example.com''\<rparr>
   \<and> scrubPoolUser stubNames userBob freshScrub = (Inr userBob, freshScrub)"
proof -
  have first: "fst (scrubbedEmailMemo stubNames ''alice@example.com'' freshScrub)
     = \<lparr>scrubbed_first = Some ''happy'', scrubbed_last = Some ''cat'',
        scrubbed_email = ''happy.cat@example.com''\<rparr>"
    by (simp add: scrubbedEmailMemo_miss freshScrub_def stubNames_def at_def substring_def)
  have bob: "oldEmailOf userBob = Some (''bob'' @ ''@cleo.com'')"
    by (simp add: oldEmailOf_def userBob_def mkAttr_def)
  note t = scrubbedEmailMemo_deterministic
             [where names_choose = stubNames and email = "''alice@example.com''"
                and st = freshScrub and usr = userBob and local = "''bob''"
                and between = "[''zoe@example.org'']"]
  have again: "fst (scrubbedEmailMemo stubNames ''alice@example.com''
          (scrubbedEmails stubNames [''zoe@example.org'']
             (snd (scrubbedEmailMemo stubNames ''alice@example.com'' freshScrub))))
     = \<lparr>scrubbed_first = Some ''happy'', scrubbed_last = Some ''cat'',
        scrubbed_email = ''happy.cat@example.com''\<rparr>"
    using t [THEN conjunct1] first by simp
  have kept: "scrubPoolUser stubNames userBob freshScrub = (Inr userBob, freshScrub)"
    using t [THEN conjunct2, THEN conjunct1, THEN mp, OF bob] .
  show ?thesis
    using first again kept by simp
qed

lemma oldEmailOf_alice: "oldEmailOf userAlice = Some ''alice@example.com''"
  by (simp add: oldEmailOf_def userAlice_def mkAttr_def)

lemma identity_of_alice:
  "fst (scrubbedEmailMemo stubNames ''alice@example.com'' freshScrub)
   = \<lparr>scrubbed_first = Some ''happy'', scrubbed_last = Some ''cat'',
      scrubbed_email = ''happy.cat@example.com''\<rparr>"
  by (simp add: scrubbedEmailMemo_miss freshScrub_def stubNames_def at_def substring_def)

lemma alice_not_allow_listed:
  "\<not> endsWith ''alice@example.com'' ''cleo.com''" "\<not> endsWith ''alice@example.com'' ''mailosaur.io''"
  by (simp_all add: endsWith_def)

lemma scrubPoolUser_alice: "fst (scrubPoolUser stubNames userAlice freshScrub) = Inr aliceScrubbed"
proof -
  have "fst (scrubPoolUser stubNames userAlice freshScrub)
        = Inr (scrubbedUser userAlice (fst (scrubbedEmailMemo stubNames ''alice@example.com'' freshScrub)))"
    by (simp add: scrubPoolUser_scrubs [OF oldEmailOf_alice] alice_not_allow_listed)
  then show ?thesis
    by (simp add: identity_of_alice)
       (simp add: scrubbedUser_def userAlice_def aliceScrubbed_def mkAttr_def scrubbedNames_def)
qed

text \<open>
  Claim C8, as stated, fails: the scrubbed record of a user with a \<open>preferred_name\<close>
  attribute has no such attribute any more.
\<close>

theorem scrubPoolUser_drops_preferred_name:
  "mkAttr ''preferred_name'' ''Al'' \<in> set (Attributes userAlice)
   \<and> fst (scrubPoolUser stubNames userAlice freshScrub) = Inr aliceScrubbed
   \<and> mkAttr ''preferred_name'' ''Al'' \<notin> set (Attributes aliceScrubbed)"
  using scrubPoolUser_alice
  by (simp add: userAlice_def aliceScrubbed_def mkAttr_def)

text \<open>
  Claim C8, amended. Let the email address of a user not end with \<open>cleo.com\<close> or
  \<open>mailosaur.io\<close>, and let \<open>r\<close> be the identity the memoized transform returns for it.
  The scrubbed record has the attributes of the user that are not named \<open>given_name\<close>,
  \<open>family_name\<close>, \<open>preferred_name\<close> or \<open>email\<close>, unchanged and in their order,
  followed by the new \<open>email\<close>, \<open>given_name\<close> and \<open>family_name\<close>; it has no
  \<open>preferred_name\<close> attribute. Its \<open>Username\<close> is the new email address when the old
  \<open>Username\<close> contains \<open>@\<close> and the old \<open>Username\<close> otherwise. Every other field is
  unchanged.
\<close>

theorem scrubPoolUser_frame:
  assumes "oldEmailOf usr = Some oldEmail"
    and "\<not> endsWith oldEmail ''cleo.com''" and "\<not> endsWith oldEmail ''mailosaur.io''"
    and "r = fst (scrubbedEmailMemo names_choose oldEmail st)"
    and "fst (scrubPoolUser names_choose usr st) = Inr usr'"
  shows "Attributes usr'
         = filter (\<lambda>attr. Name attr \<notin> set [''given_name'', ''family_name'', ''preferred_name'', ''email''])
             (Attributes usr)
           @ [\<lparr>Name = ''email'', Value = Some (scrubbed_email r)\<rparr>,
              \<lparr>Name = ''given_name'', Value = scrubbed_first r\<rparr>,
              \<lparr>Name = ''family_name'', Value = scrubbed_last r\<rparr>]
       \<and> filter (\<lambda>attr. Name attr \<notin> set [''given_name'', ''family_name'', ''preferred_name'', ''email''])
             (Attributes usr')
         = filter (\<lambda>attr. Name attr \<notin> set [''given_name'', ''family_name'', ''preferred_name'', ''email''])
             (Attributes usr)
       \<and> (\<forall>attr \<in> set (Attributes usr'). Name attr \<noteq> ''preferred_name'')
       \<and> Username usr' = (if CHR ''@'' \<in> set (Username usr) then scrubbed_email r else Username usr)
       \<and> UserStatus usr' = UserStatus usr
       \<and> user.more usr' = user.more usr"
proof -
  have u: "usr' = scrubbedUser usr r"
    using assms by (simp add: scrubPoolUser_scrubs)
  have attrs: "Attributes usr'
         = filter (\<lambda>attr. Name attr \<notin> set [''given_name'', ''family_name'', ''preferred_name'', ''email''])
             (Attributes usr)
           @ [\<lparr>Name = ''email'', Value = Some (scrubbed_email r)\<rparr>,
              \<lparr>Name = ''given_name'', Value = scrubbed_first r\<rparr>,
              \<lparr>Name = ''family_name'', Value = scrubbed_last r\<rparr>]"
    by (simp add: u scrubbedUser_def scrubbedNames_def)
  have others: "filter (\<lambda>attr. Name attr \<notin> set [''given_name'', ''family_name'', ''preferred_name'', ''email''])
             (Attributes usr')
         = filter (\<lambda>attr. Name attr \<notin> set [''given_name'', ''family_name'', ''preferred_name'', ''email''])
             (Attributes usr)"
    by (simp add: attrs)
  have preferred: "\<forall>attr \<in> set (Attributes usr'). Name attr \<noteq> ''preferred_name''"
    by (auto simp add: attrs)
  have name: "Username usr' = (if CHR ''@'' \<in> set (Username usr) then scrubbed_email r else Username usr)"
    by (simp add: u scrubbedUser_def indexOf_nonneg_iff)
  have rest: "UserStatus usr' = UserStatus usr" "user.more usr' = user.more usr"
    by (simp_all add: u scrubbedUser_def)
  show ?thesis
    using attrs others preferred name rest by blast
qed

theorem scrubPoolUser_frame_witness:
  "fst (scrubPoolUser stubNames userAlice freshScrub) = Inr aliceScrubbed
   \<and> Attributes aliceScrubbed
     = [mkAttr ''sub'' ''1234'', mkAttr ''custom:company'' ''Acme'']
       @ [mkAttr ''email'' ''happy.cat@example.com'', mkAttr ''given_name'' ''happy'',
          mkAttr ''family_name'' ''cat'']
   \<and> Username aliceScrubbed = ''happy.cat@example.com''
   \<and> UserStatus aliceScrubbed = UserStatus userAlice"
proof -
  note t = scrubPoolUser_frame
             [OF oldEmailOf_alice alice_not_allow_listed identity_of_alice [symmetric]
                 scrubPoolUser_alice]
  have a: "Attributes aliceScrubbed
     = [mkAttr ''sub'' ''1234'', mkAttr ''custom:company'' ''Acme'']
       @ [mkAttr ''email'' ''happy.cat@example.com'', mkAttr ''given_name'' ''happy'',
          mkAttr ''family_name'' ''cat'']"
    using t [THEN conjunct1] by (simp add: userAlice_def mkAttr_def)
  have b: "Username aliceScrubbed = ''happy.cat@example.com''"
    using t [THEN conjunct2, THEN conjunct2, THEN conjunct2, THEN conjunct1]
    by (simp add: userAlice_def)
  have c: "UserStatus aliceScrubbed = UserStatus userAlice"
    using t [THEN conjunct2, THEN conjunct2, THEN conjunct2, THEN conjunct2, THEN conjunct1] .
  show ?thesis
    using scrubPoolUser_alice a b c by simp
qed

text \<open>
  Claim C10, as stated, fails for an email value without \<open>@\<close> that ends with one of the
  two recognized domains: such a record is returned unchanged, and the transform is not
  called.
\<close>

theorem scrubPoolUser_skips_bare_domain:
  "CHR ''@'' \<notin> set ''cleo.com''
   \<and> oldEmailOf userEve = Some ''cleo.com''
   \<and> scrubPoolUser stubNames userEve freshScrub = (Inr userEve, freshScrub)"
proof -
  have old: "oldEmailOf userEve = Some ''cleo.com''"
    by (simp add: oldEmailOf_def userEve_def mkAttr_def)
  have "endsWith ''cleo.com'' ''cleo.com'' \<or> endsWith ''cleo.com'' ''mailosaur.io''"
    by (simp add: endsWith_def)
  with old show ?thesis
    by (simp add: scrubPoolUser_skips)
qed

lemma scrubPoolUser_absent:
  "find (\<lambda>attr. Name attr = ''email'') (Attributes usr) = None \<Longrightarrow>
   scrubPoolUser names_choose usr st
   = (Inr (scrubbedUser usr (fst (scrubbedEmailMemo names_choose [] st))),
      snd (scrubbedEmailMemo names_choose [] st))"
  by (simp add: scrubPoolUser_scrubs oldEmailOf_absent not_endsWith_empty)

text \<open>
  Claim C10, amended. A user without an \<open>email\<close> attribute is scrubbed with the empty
  string as the memoization key. A user whose email value has no \<open>@\<close> and does not end
  with \<open>cleo.com\<close> or \<open>mailosaur.io\<close> is scrubbed with that value as the key. For an
  address without \<open>@\<close> the search yields \<open>-1\<close> and the derived domain is the whole
  address (the empty string for a missing email). When the address is new to the cache
  and the generated name has no \<open>@\<close>, the generated email address is the name, its first
  hyphen replaced by a dot, followed by the address, and has no \<open>@\<close>. Every user without
  an \<open>email\<close> attribute scrubbed later in the run gets the identity of the first one, and
  the state is not changed by it.
\<close>

theorem scrubPoolUser_without_email:
  "(find (\<lambda>attr. Name attr = ''email'') (Attributes usr) = None \<longrightarrow>
      oldEmailOf usr = Some []
      \<and> scrubPoolUser names_choose usr st
        = (Inr (scrubbedUser usr (fst (scrubbedEmailMemo names_choose [] st))),
           snd (scrubbedEmailMemo names_choose [] st)))
   \<and> (oldEmailOf usr = Some e \<longrightarrow> CHR ''@'' \<notin> set e \<longrightarrow>
       \<not> endsWith e ''cleo.com'' \<longrightarrow> \<not> endsWith e ''mailosaur.io'' \<longrightarrow>
      scrubPoolUser names_choose usr st
      = (Inr (scrubbedUser usr (fst (scrubbedEmailMemo names_choose e st))),
         snd (scrubbedEmailMemo names_choose e st)))
   \<and> (CHR ''@'' \<notin> set e \<longrightarrow>
      indexOf e CHR ''@'' = - 1 \<and> substring e (indexOf e CHR ''@'') = e)
   \<and> (CHR ''@'' \<notin> set e \<longrightarrow> memo_cache st e = None \<longrightarrow>
       CHR ''@'' \<notin> set (fst (names_choose (names_state st))) \<longrightarrow>
      scrubbed_email (fst (scrubbedEmailMemo names_choose e st))
      = replaceFirst (fst (names_choose (names_state st))) CHR ''-'' CHR ''.'' @ e
      \<and> CHR ''@'' \<notin> set (scrubbed_email (fst (scrubbedEmailMemo names_choose e st))))
   \<and> (find (\<lambda>attr. Name attr = ''email'') (Attributes later) = None \<longrightarrow>
      scrubPoolUser names_choose later
        (scrubbedEmails names_choose between (snd (scrubbedEmailMemo names_choose [] st)))
      = (Inr (scrubbedUser later (fst (scrubbedEmailMemo names_choose [] st))),
         scrubbedEmails names_choose between (snd (scrubbedEmailMemo names_choose [] st))))"
proof -
  have bare: "scrubPoolUser names_choose usr st
      = (Inr (scrubbedUser usr (fst (scrubbedEmailMemo names_choose e st))),
         snd (scrubbedEmailMemo names_choose e st))"
    if "oldEmailOf usr = Some e" and "\<not> endsWith e ''cleo.com''" and "\<not> endsWith e ''mailosaur.io''"
    using that by (rule scrubPoolUser_scrubs)
  have domain: "indexOf e CHR ''@'' = - 1 \<and> substring e (indexOf e CHR ''@'') = e"
    if "CHR ''@'' \<notin> set e"
    using that by (simp add: indexOf_absent substring_def)
  have fresh: "scrubbed_email (fst (scrubbedEmailMemo names_choose e st))
      = replaceFirst (fst (names_choose (names_state st))) CHR ''-'' CHR ''.'' @ e
      \<and> CHR ''@'' \<notin> set (scrubbed_email (fst (scrubbedEmailMemo names_choose e st)))"
    if "CHR ''@'' \<notin> set e" and "memo_cache st e = None"
      and "CHR ''@'' \<notin> set (fst (names_choose (names_state st)))"
    using that
    by (simp add: scrubbedEmailMemo_miss substring_absent replaceFirst_keeps_out)
  have shared: "scrubPoolUser names_choose later
        (scrubbedEmails names_choose between (snd (scrubbedEmailMemo names_choose [] st)))
      = (Inr (scrubbedUser later (fst (scrubbedEmailMemo names_choose [] st))),
         scrubbedEmails names_choose between (snd (scrubbedEmailMemo names_choose [] st)))"
    if "find (\<lambda>attr. Name attr = ''email'') (Attributes later) = None"
    using that by (simp add: scrubPoolUser_absent scrubbedEmailMemo_again)
  have absent: "oldEmailOf usr = Some []
      \<and> scrubPoolUser names_choose usr st
        = (Inr (scrubbedUser usr (fst (scrubbedEmailMemo names_choose [] st))),
           snd (scrubbedEmailMemo names_choose [] st))"
    if "find (\<lambda>attr. Name attr = ''email'') (Attributes usr) = None"
    using that by (simp add: oldEmailOf_absent scrubPoolUser_absent)
  show ?thesis
    using absent bare domain fresh shared by blast
qed

lemma identity_of_empty:
  "fst (scrubbedEmailMemo stubNames [] freshScrub) = happyCat"
  by (simp add: scrubbedEmailMemo_miss freshScrub_def stubNames_def at_def substring_def
        happyCat_def)

theorem scrubPoolUser_without_email_witness:
  "fst (scrubPoolUser stubNames userCarol freshScrub)
     = Inr \<lparr>Username = ''carol'', UserStatus = Some ''CONFIRMED'',
            Attributes = [mkAttr ''sub'' ''77'', mkAttr ''email'' ''happy.cat'',
                          mkAttr ''given_name'' ''happy'', mkAttr ''family_name'' ''cat'']\<rparr>
   \<and> fst (scrubPoolUser stubNames userDave
            (scrubbedEmails stubNames [''alice@example.com'']
               (snd (scrubbedEmailMemo stubNames [] freshScrub))))
     = Inr \<lparr>Username = ''dave'', UserStatus = Some ''FORCE_CHANGE_PASSWORD'',
            Attributes = [mkAttr ''email'' ''happy.cat'',
                          mkAttr ''given_name'' ''happy'', mkAttr ''family_name'' ''cat'']\<rparr>
   \<and> fst (scrubPoolUser stubNames userFrank freshScrub)
     = Inr \<lparr>Username = ''frank'', UserStatus = Some ''CONFIRMED'',
            Attributes = [mkAttr ''email'' ''happy.catfrank'',
                          mkAttr ''given_name'' ''happy'', mkAttr ''family_name'' ''cat'']\<rparr>
   \<and> indexOf ''frank'' CHR ''@'' = - 1
   \<and> substring ''frank'' (indexOf ''frank'' CHR ''@'') = ''frank''
   \<and> scrubbed_email (fst (scrubbedEmailMemo stubNames [] freshScrub)) = ''happy.cat''
   \<and> CHR ''@'' \<notin> set (scrubbed_email (fst (scrubbedEmailMemo stubNames [] freshScrub)))"
proof -
  have noCarol: "find (\<lambda>attr. Name attr = ''email'') (Attributes userCarol) = None"
    by (simp add: userCarol_def mkAttr_def)
  have noDave: "find (\<lambda>attr. Name attr = ''email'') (Attributes userDave) = None"
    by (simp add: userDave_def mkAttr_def)
  have frank: "oldEmailOf userFrank = Some ''frank''"
    by (simp add: oldEmailOf_def userFrank_def mkAttr_def)
  have bare: "CHR ''@'' \<notin> set ''frank''" "\<not> endsWith ''frank'' ''cleo.com''"
    "\<not> endsWith ''frank'' ''mailosaur.io''"
    by (simp_all add: endsWith_def)
  have none: "CHR ''@'' \<notin> set []" "memo_cache freshScrub [] = None"
    "CHR ''@'' \<notin> set (fst (stubNames (names_state freshScrub)))"
    by (simp_all add: freshScrub_def stubNames_def)
  have frankId: "fst (scrubbedEmailMemo stubNames ''frank'' freshScrub)
                 = happyCat\<lparr>scrubbed_email := ''happy.catfrank''\<rparr>"
    by (simp add: scrubbedEmailMemo_miss freshScrub_def stubNames_def at_def substring_def
          happyCat_def)
  note t = scrubPoolUser_without_email
             [where names_choose = stubNames and st = freshScrub and usr = userCarol
                and later = userDave and between = "[''alice@example.com'']" and e = "[]"]
  note f = scrubPoolUser_without_email
             [where names_choose = stubNames and st = freshScrub and usr = userFrank
                and e = "''frank''"]
  have a: "fst (scrubPoolUser stubNames userCarol freshScrub) = Inr (scrubbedUser userCarol happyCat)"
    using t [THEN conjunct1, THEN mp, OF noCarol] by (simp add: identity_of_empty)
  have b: "fst (scrubPoolUser stubNames userDave
            (scrubbedEmails stubNames [''alice@example.com'']
               (snd (scrubbedEmailMemo stubNames [] freshScrub))))
           = Inr (scrubbedUser userDave happyCat)"
    using t [THEN conjunct2, THEN conjunct2, THEN conjunct2, THEN conjunct2, THEN mp, OF noDave]
    by (simp add: identity_of_empty)
  have c: "fst (scrubPoolUser stubNames userFrank freshScrub)
           = Inr (scrubbedUser userFrank (happyCat\<lparr>scrubbed_email := ''happy.catfrank''\<rparr>))"
    using f [THEN conjunct2, THEN conjunct1, THEN mp, OF frank, THEN mp, OF bare(1),
             THEN mp, OF bare(2), THEN mp, OF bare(3)]
    by (simp add: frankId)
  have d: "indexOf ''frank'' CHR ''@'' = - 1 \<and> substring ''frank'' (indexOf ''frank'' CHR ''@'') = ''frank''"
    using f [THEN conjunct2, THEN conjunct2, THEN conjunct1, THEN mp, OF bare(1)] .
  have e: "scrubbed_email (fst (scrubbedEmailMemo stubNames [] freshScrub))
           = replaceFirst (fst (stubNames (names_state freshScrub))) CHR ''-'' CHR ''.'' @ []
         \<and> CHR ''@'' \<notin> set (scrubbed_email (fst (scrubbedEmailMemo stubNames [] freshScrub)))"
    using t [THEN conjunct2, THEN conjunct2, THEN conjunct2, THEN conjunct1, THEN mp, OF none(1),
             THEN mp, OF none(2), THEN mp, OF none(3)] .
  have e': "replaceFirst (fst (stubNames (names_state freshScrub))) CHR ''-'' CHR ''.'' @ [] = ''happy.cat''"
    by (simp add: freshScrub_def stubNames_def)
  have su: "scrubbedUser userCarol happyCat
     = \<lparr>Username = ''carol'', UserStatus = Some ''CONFIRMED'',
            Attributes = [mkAttr ''sub'' ''77'', mkAttr ''email'' ''happy.cat'',
                          mkAttr ''given_name'' ''happy'', mkAttr ''family_name'' ''cat'']\<rparr>"
    "scrubbedUser userDave happyCat
     = \<lparr>Username = ''dave'', UserStatus = Some ''FORCE_CHANGE_PASSWORD'',
            Attributes = [mkAttr ''email'' ''happy.cat'',
                          mkAttr ''given_name'' ''happy'', mkAttr ''family_name'' ''cat'']\<rparr>"
    "scrubbedUser userFrank (happyCat\<lparr>scrubbed_email := ''happy.catfrank''\<rparr>)
     = \<lparr>Username = ''frank'', UserStatus = Some ''CONFIRMED'',
            Attributes = [mkAttr ''email'' ''happy.catfrank'',
                          mkAttr ''given_name'' ''happy'', mkAttr ''family_name'' ''cat'']\<rparr>"
    by (simp_all add: scrubbedUser_def userCarol_def userDave_def userFrank_def happyCat_def
          mkAttr_def scrubbedNames_def)
  have e1: "scrubbed_email (fst (scrubbedEmailMemo stubNames [] freshScrub)) = ''happy.cat''"
    using e [THEN conjunct1] e' by (rule trans)
  show ?thesis
    by (intro conjI a [unfolded su] b [unfolded su] c [unfolded su]
          d [THEN conjunct1] d [THEN conjunct2] e1 e [THEN conjunct2])
qed

end
